theory Spec2Isabelle
  imports Complex_Main "HOL-Library.Word" "HOL-Library.Multiset" "HOL-Library.Char_ord"
    "HOL-Library.List_Lexorder"
begin

unbundle bit_operations_syntax

chapter \<open>HMIC-A: encoder, containers and players\<close>

text \<open>
  A shallow embedding of the converter (\<^verbatim>\<open>src/con.cpp\<close>), the text player and the
  binary writer (\<^verbatim>\<open>src/unnamed/part_000\<close>) and the memory-mapped binary player
  (\<^verbatim>\<open>src/P/play.cpp\<close>). All definitions come first, the theorems follow.
\<close>

section \<open>Machine types\<close>

type_synonym u8 = "8 word"
type_synonym u32 = "32 word"
type_synonym u64 = "64 word"

text \<open>The range of a C++ \<^verbatim>\<open>int\<close> (32 bit, two's complement).\<close>

definition INT_MIN :: int where "INT_MIN = - 2147483648"
definition INT_MAX :: int where "INT_MAX = 2147483647"

text \<open>
  Signed \<^verbatim>\<open>int\<close> arithmetic. Overflow is undefined behaviour in C++; the model
  returns \<open>None\<close> there, so that no theorem silently relies on a wrapped value.
\<close>

definition int_add :: "int \<Rightarrow> int \<Rightarrow> int option" where
  "int_add a b = (if INT_MIN \<le> a + b \<and> a + b \<le> INT_MAX then Some (a + b) else None)"

definition int_sub :: "int \<Rightarrow> int \<Rightarrow> int option" where
  "int_sub a b = (if INT_MIN \<le> a - b \<and> a - b \<le> INT_MAX then Some (a - b) else None)"

definition int_mul :: "int \<Rightarrow> int \<Rightarrow> int option" where
  "int_mul a b = (if INT_MIN \<le> a * b \<and> a * b \<le> INT_MAX then Some (a * b) else None)"

text \<open>The \<^verbatim>\<open>int\<close> expression \<^verbatim>\<open>y * w + x\<close>, the index of a pixel in its buffer.\<close>

definition pixel_index :: "int \<Rightarrow> int \<Rightarrow> int \<Rightarrow> int option" where
  "pixel_index y w x = (case int_mul y w of None \<Rightarrow> None | Some r \<Rightarrow> int_add r x)"

section \<open>The binary container (HMICFAST)\<close>

subsection \<open>Little-endian fields\<close>

text \<open>
  The header and the index are written and read as raw packed structs, with native
  byte order; the model fixes little-endian, the byte order of the x86 and ARM targets
  the players are built for.
\<close>

fun le_bytes :: "nat \<Rightarrow> nat \<Rightarrow> u8 list" where
  "le_bytes 0 v = []"
| "le_bytes (Suc n) v = of_nat (v mod 256) # le_bytes n (v div 256)"

fun le_nat :: "u8 list \<Rightarrow> nat" where
  "le_nat [] = 0"
| "le_nat (b # bs) = unat b + 256 * le_nat bs"

definition bytes_at :: "u8 list \<Rightarrow> nat \<Rightarrow> nat \<Rightarrow> u8 list" where
  "bytes_at mem off n = take n (drop off mem)"

definition u8_at :: "u8 list \<Rightarrow> nat \<Rightarrow> u8" where
  "u8_at mem off = of_nat (le_nat (bytes_at mem off 1))"

definition u32_at :: "u8 list \<Rightarrow> nat \<Rightarrow> u32" where
  "u32_at mem off = of_nat (le_nat (bytes_at mem off 4))"

definition u64_at :: "u8 list \<Rightarrow> nat \<Rightarrow> u64" where
  "u64_at mem off = of_nat (le_nat (bytes_at mem off 8))"

subsection \<open>Header and index structs\<close>

text \<open>
  \<^verbatim>\<open>#pragma pack(push, 1) struct HMICFastHeader\<close>: 59 bytes, no padding. The
  fields carry the prefix \<open>hdr_\<close> (and \<open>entry_\<close> for the index entry), since a record
  field is a global constant and the player state has fields of the same names.
\<close>

record HMICFastHeader =
  hdr_magic :: "u8 list"
  hdr_version :: u32
  hdr_width :: u32
  hdr_height :: u32
  hdr_fps :: u32
  hdr_total_frames :: u32
  hdr_has_audio :: u8
  hdr_compressed :: u8
  hdr_audio_sample_rate :: u32
  hdr_audio_channels :: u8
  hdr_audio_samples :: u64
  hdr_frame_index_offset :: u64
  hdr_audio_data_offset :: u64

record FrameIndexEntry =
  entry_offset :: u64
  entry_size :: u32

definition sizeof_HMICFastHeader :: nat where "sizeof_HMICFastHeader = 59"
definition sizeof_FrameIndexEntry :: nat where "sizeof_FrameIndexEntry = 12"
definition sizeof_RGBA :: nat where "sizeof_RGBA = 4"

text \<open>The eight bytes of the string literal \<^verbatim>\<open>"HMICFAST"\<close>.\<close>

definition HMICFAST :: "u8 list" where
  "HMICFAST = [72, 77, 73, 67, 70, 65, 83, 84]"

text \<open>Reading the struct that a \<^verbatim>\<open>HMICFastHeader*\<close> at address \<open>off\<close> points to.\<close>

definition header_at :: "u8 list \<Rightarrow> nat \<Rightarrow> HMICFastHeader" where
  "header_at mem off = \<lparr>
     hdr_magic = bytes_at mem off 8,
     hdr_version = u32_at mem (off + 8),
     hdr_width = u32_at mem (off + 12),
     hdr_height = u32_at mem (off + 16),
     hdr_fps = u32_at mem (off + 20),
     hdr_total_frames = u32_at mem (off + 24),
     hdr_has_audio = u8_at mem (off + 28),
     hdr_compressed = u8_at mem (off + 29),
     hdr_audio_sample_rate = u32_at mem (off + 30),
     hdr_audio_channels = u8_at mem (off + 34),
     hdr_audio_samples = u64_at mem (off + 35),
     hdr_frame_index_offset = u64_at mem (off + 43),
     hdr_audio_data_offset = u64_at mem (off + 51) \<rparr>"

text \<open>Writing the struct: \<^verbatim>\<open>file.write((char*)&header, sizeof(HMICFastHeader))\<close>.\<close>

definition header_bytes :: "HMICFastHeader \<Rightarrow> u8 list" where
  "header_bytes h =
     hdr_magic h @ le_bytes 4 (unat (hdr_version h)) @ le_bytes 4 (unat (hdr_width h))
     @ le_bytes 4 (unat (hdr_height h)) @ le_bytes 4 (unat (hdr_fps h))
     @ le_bytes 4 (unat (hdr_total_frames h)) @ le_bytes 1 (unat (hdr_has_audio h))
     @ le_bytes 1 (unat (hdr_compressed h)) @ le_bytes 4 (unat (hdr_audio_sample_rate h))
     @ le_bytes 1 (unat (hdr_audio_channels h)) @ le_bytes 8 (unat (hdr_audio_samples h))
     @ le_bytes 8 (unat (hdr_frame_index_offset h)) @ le_bytes 8 (unat (hdr_audio_data_offset h))"

definition entry_at :: "u8 list \<Rightarrow> nat \<Rightarrow> FrameIndexEntry" where
  "entry_at mem off = \<lparr> entry_offset = u64_at mem off, entry_size = u32_at mem (off + 8) \<rparr>"

definition entry_bytes :: "FrameIndexEntry \<Rightarrow> u8 list" where
  "entry_bytes e = le_bytes 8 (unat (entry_offset e)) @ le_bytes 4 (unat (entry_size e))"

subsection \<open>Pixels\<close>

text \<open>
  \<^verbatim>\<open>struct RGBA { uint8_t r, g, b, a; }\<close>. The selectors are \<open>rgba_r\<close> ... \<open>rgba_a\<close>:
  one-letter constants would capture the variables of every later statement.
\<close>

datatype RGBA = RGBA (rgba_r: u8) (rgba_g: u8) (rgba_b: u8) (rgba_a: u8)

definition rgba_bytes :: "RGBA \<Rightarrow> u8 list" where
  "rgba_bytes c = [rgba_r c, rgba_g c, rgba_b c, rgba_a c]"

text \<open>The bytes of a \<^verbatim>\<open>std::vector<RGBA>\<close>, as \<^verbatim>\<open>frame.data()\<close> exposes them.\<close>

definition frame_bytes :: "RGBA list \<Rightarrow> u8 list" where
  "frame_bytes px = concat (map rgba_bytes px)"


subsection \<open>The state of the memory-mapped player\<close>

text \<open>
  \<^verbatim>\<open>void* mapped_data\<close> is \<open>Null\<close>, \<^verbatim>\<open>MAP_FAILED\<close> or the region \<^verbatim>\<open>mmap\<close>
  returned; the region is the file followed by the zero fill of its last page.
\<close>

datatype region = Null | MapFailed | Region "u8 list"

text \<open>
  \<^verbatim>\<open>struct FastPlayerState\<close>. Every pointer into the mapping is the byte distance
  from \<^verbatim>\<open>mapped_data\<close> (\<open>None\<close> is \<^verbatim>\<open>nullptr\<close>). A cache slot holds the bytes of
  the buffer it points to. The three clock fields \<^verbatim>\<open>start_time\<close>,
  \<^verbatim>\<open>frame_duration_ms\<close> and \<^verbatim>\<open>samples_per_frame\<close> are wall-clock and
  floating-point values and are not part of the record; the one integer derived from
  them, \<^verbatim>\<open>(int64_t)(current_frame * samples_per_frame)\<close>, is a parameter of the
  functions that use it.
\<close>

record FastPlayerState =
  playing :: bool
  has_audio :: bool
  current_frame :: int
  target_audio_sample :: int
  audio_sample_pos :: int
  quit :: bool
  mapped_data :: region
  mapped_size :: nat
  fd :: int
  header :: "int option"
  frame_index :: "int option"
  frames_base :: "int option"
  audio_data :: "int option"
  frame_cache :: "u8 list option list"
  frame_cached :: "bool list"

text \<open>The default member initialisers of the global \<^verbatim>\<open>player\<close>.\<close>

definition player0 :: FastPlayerState where
  "player0 = \<lparr> playing = False, has_audio = False, current_frame = 0,
     target_audio_sample = 0, audio_sample_pos = 0, quit = False,
     mapped_data = Null, mapped_size = 0, fd = - 1,
     header = None, frame_index = None, frames_base = None, audio_data = None,
     frame_cache = [], frame_cached = [] \<rparr>"

text \<open>
  A read of \<open>n\<close> bytes at distance \<open>off\<close> from the start of the mapping; outside the
  mapping the access faults (\<open>None\<close>).
\<close>

definition deref :: "u8 list \<Rightarrow> int \<Rightarrow> nat \<Rightarrow> u8 list option" where
  "deref mem off n =
     (if 0 \<le> off \<and> nat off + n \<le> length mem then Some (bytes_at mem (nat off) n) else None)"

text \<open>\<^verbatim>\<open>player.header->...\<close>: the header struct behind the pointer, if it can be read.\<close>

definition the_header :: "FastPlayerState \<Rightarrow> HMICFastHeader option" where
  "the_header p =
     (case (mapped_data p, header p) of
        (Region mem, Some off) \<Rightarrow>
          (case deref mem off sizeof_HMICFastHeader of
             None \<Rightarrow> None
           | Some bs \<Rightarrow> Some (header_at bs 0))
      | _ \<Rightarrow> None)"

subsection \<open>\<^verbatim>\<open>load_hmicfast\<close>\<close>

text \<open>
  What the operating system answers: the descriptor \<^verbatim>\<open>open\<close> returns (\<open>-1\<close> on
  failure), the size \<^verbatim>\<open>fstat\<close> reports (\<open>None\<close> when it returns \<open>-1\<close>) and the
  region \<^verbatim>\<open>mmap\<close> returns (\<open>None\<close> for \<^verbatim>\<open>MAP_FAILED\<close>).
\<close>

record os_reply =
  open_result :: int
  fstat_result :: "nat option"
  mmap_result :: "u8 list option"

text \<open>
  The system calls and the reads of mapped memory that \<^verbatim>\<open>load_hmicfast\<close> performs,
  in program order: \<open>EvOpen fd\<close> is a call of \<^verbatim>\<open>open\<close> that returned \<open>fd\<close>,
  \<open>EvMmap n ok\<close> a call of \<^verbatim>\<open>mmap\<close> for \<open>n\<close> bytes that succeeded or not,
  \<open>EvRead off n\<close> a read of \<open>n\<close> bytes at byte \<open>off\<close> of the mapping.
\<close>

datatype sys_event =
  EvOpen int | EvFstat | EvMmap nat bool | EvRead nat nat | EvMunmap nat | EvClose int

definition page_size :: nat where "page_size = 4096"

text \<open>The bytes visible through a mapping of a whole file: zero filled to the page end.\<close>

definition mmap_view :: "u8 list \<Rightarrow> u8 list" where
  "mmap_view file = file @ replicate ((page_size - length file mod page_size) mod page_size) 0"

text \<open>The replies for a regular readable file: a mapping of length 0 is refused.\<close>

definition os_for_file :: "u8 list \<Rightarrow> os_reply" where
  "os_for_file file = \<lparr> open_result = 3, fstat_result = Some (length file),
     mmap_result = (if file = [] then None else Some (mmap_view file)) \<rparr>"

text \<open>The header fields read after the magic check, in the order of the source.\<close>

definition reads_after_magic :: "HMICFastHeader \<Rightarrow> sys_event list" where
  "reads_after_magic h =
     [EvRead 12 4, EvRead 16 4, EvRead 20 4, EvRead 24 4, EvRead 29 1,
      EvRead 43 8, EvRead 24 4, EvRead 24 4, EvRead 20 4, EvRead 28 1]
     @ (if hdr_has_audio h \<noteq> 0
        then [EvRead 30 4, EvRead 34 1, EvRead 35 8, EvRead 51 8, EvRead 35 8, EvRead 24 4]
        else [])
     @ [EvRead 29 1]
     @ (if hdr_compressed h \<noteq> 0 then [EvRead 24 4, EvRead 24 4] else [])"

text \<open>\<^verbatim>\<open>vector::resize(n, v)\<close>.\<close>

definition resize :: "nat \<Rightarrow> 'a \<Rightarrow> 'a list \<Rightarrow> 'a list" where
  "resize n v xs = take n xs @ replicate (n - length xs) v"

definition load_hmicfast :: "os_reply \<Rightarrow> FastPlayerState \<Rightarrow> bool \<times> FastPlayerState \<times> sys_event list" where
  "load_hmicfast os p0 =
    (let p1 = p0\<lparr>fd := open_result os\<rparr> in
     if fd p1 = - 1 then (False, p1, [EvOpen (fd p1)])
     else case fstat_result os of
       None \<Rightarrow> (False, p1, [EvOpen (fd p1), EvFstat, EvClose (fd p1)])
     | Some sz \<Rightarrow>
        (let p2 = p1\<lparr>mapped_size := sz\<rparr> in
         case mmap_result os of
           None \<Rightarrow> (False, p2\<lparr>mapped_data := MapFailed\<rparr>,
                     [EvOpen (fd p2), EvFstat, EvMmap sz False, EvClose (fd p2)])
         | Some mem \<Rightarrow>
            (let p3 = p2\<lparr>mapped_data := Region mem, header := Some 0\<rparr>;
                 h = header_at mem 0 in
             if hdr_magic h \<noteq> HMICFAST
             then (False, p3,
                   [EvOpen (fd p3), EvFstat, EvMmap sz True, EvRead 0 8, EvMunmap sz,
                    EvClose (fd p3)])
             else
              (let p4 = p3\<lparr>frame_index := Some (int (unat (hdr_frame_index_offset h))),
                            frames_base := Some (int (sizeof_HMICFastHeader
                               + sizeof_FrameIndexEntry * unat (hdr_total_frames h)))\<rparr>;
                   p5 = (if hdr_has_audio h \<noteq> 0
                         then p4\<lparr>audio_data := Some (int (unat (hdr_audio_data_offset h))),
                                 has_audio := True\<rparr>
                         else p4);
                   p6 = (if hdr_compressed h \<noteq> 0
                         then p5\<lparr>frame_cache :=
                                    resize (unat (hdr_total_frames h)) None (frame_cache p5),
                                 frame_cached :=
                                    resize (unat (hdr_total_frames h)) False (frame_cached p5)\<rparr>
                         else p5)
               in (True, p6,
                   [EvOpen (fd p6), EvFstat, EvMmap sz True, EvRead 0 8]
                   @ reads_after_magic h)))))"

text \<open>
  What a run leaves behind in the operating system: the descriptors still open and the
  sizes of the mappings still in place, after the events of the trace.
\<close>

fun os_event :: "int list \<times> nat list \<Rightarrow> sys_event \<Rightarrow> int list \<times> nat list" where
  "os_event (fds, maps) (EvOpen d) = (if d = - 1 then (fds, maps) else (d # fds, maps))"
| "os_event (fds, maps) (EvClose d) = (remove1 d fds, maps)"
| "os_event (fds, maps) (EvMmap n ok) = (if ok then (fds, n # maps) else (fds, maps))"
| "os_event (fds, maps) (EvMunmap n) = (fds, remove1 n maps)"
| "os_event (fds, maps) e = (fds, maps)"

definition resources_after :: "sys_event list \<Rightarrow> int list \<times> nat list" where
  "resources_after tr = foldl os_event ([], []) tr"

fun is_read :: "sys_event \<Rightarrow> bool" where
  "is_read (EvRead off n) = True"
| "is_read e = False"

subsection \<open>\<^verbatim>\<open>get_frame_data\<close>\<close>

text \<open>What the returned \<^verbatim>\<open>RGBA*\<close> is: null, an address in the mapping, or a cache buffer.\<close>

datatype frame_ptr = NullPtr | MapPtr int | CachePtr nat

text \<open>
  \<open>zd cap src\<close> stands for \<^verbatim>\<open>ZSTD_decompress(dst, cap, src, srcSize)\<close>: the bytes
  written to \<open>dst\<close>, or \<open>None\<close> when \<^verbatim>\<open>ZSTD_isError\<close> holds of the result. The outer
  \<open>None\<close> of the result is a crash: a null or faulting dereference, or an index past the
  end of a vector. The byte distance of \<^verbatim>\<open>frames_base + offset - (sizeof header + index)\<close>
  is computed in 64 bits, as the address is.
\<close>

definition frame_address :: "FastPlayerState \<Rightarrow> HMICFastHeader \<Rightarrow> FrameIndexEntry \<Rightarrow> int option" where
  "frame_address p h e =
     (case frames_base p of
        None \<Rightarrow> None
      | Some fb \<Rightarrow>
          Some ((fb + int (unat (entry_offset e))
                 - int (sizeof_HMICFastHeader + sizeof_FrameIndexEntry * unat (hdr_total_frames h)))
                mod 2 ^ 64))"

definition index_entry :: "FastPlayerState \<Rightarrow> int \<Rightarrow> FrameIndexEntry option" where
  "index_entry p frame_idx =
     (case (mapped_data p, frame_index p) of
        (Region mem, Some fi) \<Rightarrow>
          (case deref mem (fi + int sizeof_FrameIndexEntry * frame_idx) sizeof_FrameIndexEntry of
             None \<Rightarrow> None
           | Some bs \<Rightarrow> Some (entry_at bs 0))
      | _ \<Rightarrow> None)"

definition get_frame_data ::
  "(nat \<Rightarrow> u8 list \<Rightarrow> u8 list option) \<Rightarrow> FastPlayerState \<Rightarrow> int
     \<Rightarrow> (frame_ptr \<times> FastPlayerState) option" where
  "get_frame_data zd p frame_idx =
    (case the_header p of
       None \<Rightarrow> None
     | Some h \<Rightarrow>
        if frame_idx < 0 \<or> frame_idx \<ge> sint (hdr_total_frames h) then Some (NullPtr, p)
        else if hdr_compressed h = 0 then
          (case index_entry p frame_idx of
             None \<Rightarrow> None
           | Some e \<Rightarrow>
              (case frame_address p h e of
                 None \<Rightarrow> None
               | Some addr \<Rightarrow> Some (MapPtr addr, p)))
        else if nat frame_idx \<ge> length (frame_cached p) \<or> nat frame_idx \<ge> length (frame_cache p)
          then None
        else if frame_cached p ! nat frame_idx then
          Some (case frame_cache p ! nat frame_idx of
                  None \<Rightarrow> NullPtr | Some buf \<Rightarrow> CachePtr (nat frame_idx), p)
        else
          (case index_entry p frame_idx of
             None \<Rightarrow> None
           | Some e \<Rightarrow>
              (case (frame_address p h e, mapped_data p) of
                 (Some addr, Region mem) \<Rightarrow>
                   (case deref mem addr (unat (entry_size e)) of
                      None \<Rightarrow> None
                    | Some compressed_data \<Rightarrow>
                       (let frame_size = unat (hdr_width h * hdr_height h) * sizeof_RGBA in
                        case zd frame_size compressed_data of
                          None \<Rightarrow>
                            Some (NullPtr,
                                  p\<lparr>frame_cache := (frame_cache p)[nat frame_idx := None]\<rparr>)
                        | Some buf \<Rightarrow>
                            Some (CachePtr (nat frame_idx),
                                  p\<lparr>frame_cache := (frame_cache p)[nat frame_idx := Some buf],
                                    frame_cached := (frame_cached p)[nat frame_idx := True]\<rparr>)))
               | _ \<Rightarrow> None)))"


text \<open>
  \<^verbatim>\<open>frame_data[k]\<close>: the four bytes at \<open>4 * k\<close> behind the pointer, in the mapping or
  in the cache buffer; a read outside either is a fault (\<open>None\<close>).
\<close>

definition frame_data_at :: "FastPlayerState \<Rightarrow> frame_ptr \<Rightarrow> nat \<Rightarrow> RGBA option" where
  "frame_data_at p ptr k =
     (case (case ptr of
              NullPtr \<Rightarrow> None
            | MapPtr addr \<Rightarrow>
                (case mapped_data p of
                   Region mem \<Rightarrow> deref mem (addr + int (k * sizeof_RGBA)) sizeof_RGBA
                 | _ \<Rightarrow> None)
            | CachePtr j \<Rightarrow>
                (if j < length (frame_cache p)
                 then (case frame_cache p ! j of
                         None \<Rightarrow> None
                       | Some buf \<Rightarrow> deref buf (int (k * sizeof_RGBA)) sizeof_RGBA)
                 else None)) of
        Some [r, g, b, a] \<Rightarrow> Some (RGBA r g b a)
      | _ \<Rightarrow> None)"

text \<open>
  The loop \<^verbatim>\<open>for (int i = 0; i < width * height; i++)\<close> of \<^verbatim>\<open>render_frame\<close>, with
  the pixels it reads (each goes through \<^verbatim>\<open>SDL_MapRGBA\<close> to the surface). The bound
  \<open>n\<close> is the 32-bit unsigned product; the counter is an \<^verbatim>\<open>int\<close>, and \<^verbatim>\<open>i++\<close> at
  \<open>INT_MAX\<close> is undefined behaviour (\<open>None\<close>).
\<close>

function render_loop :: "FastPlayerState \<Rightarrow> frame_ptr \<Rightarrow> nat \<Rightarrow> int \<Rightarrow> RGBA list \<Rightarrow> RGBA list option" where
  "render_loop p ptr n i out =
     (if 0 \<le> i \<and> nat i < n
      then (case frame_data_at p ptr (nat i) of
              None \<Rightarrow> None
            | Some c \<Rightarrow>
                (case int_add i 1 of
                   None \<Rightarrow> None
                 | Some i' \<Rightarrow> render_loop p ptr n i' (out @ [c])))
      else Some out)"
  by pat_completeness auto
termination
  by (relation "measure (\<lambda>(p, ptr, n, i, out). n - nat i)")
     (auto simp: int_add_def split: if_splits)

declare render_loop.simps [simp del]

definition render_frame_fast ::
  "(nat \<Rightarrow> u8 list \<Rightarrow> u8 list option) \<Rightarrow> FastPlayerState \<Rightarrow> int
     \<Rightarrow> (RGBA list option \<times> FastPlayerState) option" where
  "render_frame_fast zd p frame_idx =
     (case get_frame_data zd p frame_idx of
        None \<Rightarrow> None
      | Some (NullPtr, p') \<Rightarrow> Some (None, p')
      | Some (ptr, p') \<Rightarrow>
          (case the_header p' of
             None \<Rightarrow> None
           | Some h \<Rightarrow>
              (case render_loop p' ptr (unat (hdr_width h * hdr_height h)) 0 [] of
                 None \<Rightarrow> None
               | Some px \<Rightarrow> Some (Some px, p'))))"

subsection \<open>Key handling in the main loop of the memory-mapped player\<close>

datatype key =
  SDLK_SPACE | SDLK_LEFT | SDLK_RIGHT | SDLK_UP | SDLK_DOWN | SDLK_HOME | SDLK_END
  | SDLK_r | SDLK_ESCAPE | SDLK_other

text \<open>
  The \<^verbatim>\<open>case\<close> arms of the \<^verbatim>\<open>SDL_KEYDOWN\<close> switch. \<open>sample_of f\<close> stands for
  \<^verbatim>\<open>(int64_t)(f * player.samples_per_frame)\<close>. \<open>None\<close> is a crash (no header behind
  the pointer) or signed overflow.
\<close>

definition key_down :: "(int \<Rightarrow> int) \<Rightarrow> key \<Rightarrow> FastPlayerState \<Rightarrow> FastPlayerState option" where
  "key_down sample_of k p =
    (case k of
       SDLK_SPACE \<Rightarrow> Some (p\<lparr>playing := \<not> playing p\<rparr>)
     | SDLK_LEFT \<Rightarrow>
        (case int_sub (current_frame p) 1 of
           None \<Rightarrow> None
         | Some v \<Rightarrow>
            (let f = max 0 v
             in Some (p\<lparr>current_frame := f, target_audio_sample := sample_of f\<rparr>)))
     | SDLK_RIGHT \<Rightarrow>
        (case the_header p of
           None \<Rightarrow> None
         | Some h \<Rightarrow>
            (case (int_sub (sint (hdr_total_frames h)) 1, int_add (current_frame p) 1) of
               (Some last_frame, Some v) \<Rightarrow>
                 (let f = min last_frame v
                  in Some (p\<lparr>current_frame := f, target_audio_sample := sample_of f\<rparr>))
             | _ \<Rightarrow> None))
     | SDLK_UP \<Rightarrow>
        (case the_header p of
           None \<Rightarrow> None
         | Some h \<Rightarrow>
            (case (int_sub (sint (hdr_total_frames h)) 1, int_add (current_frame p) 10) of
               (Some last_frame, Some v) \<Rightarrow>
                 (let f = min last_frame v
                  in Some (p\<lparr>current_frame := f, target_audio_sample := sample_of f\<rparr>))
             | _ \<Rightarrow> None))
     | SDLK_DOWN \<Rightarrow>
        (case int_sub (current_frame p) 10 of
           None \<Rightarrow> None
         | Some v \<Rightarrow>
            (let f = max 0 v
             in Some (p\<lparr>current_frame := f, target_audio_sample := sample_of f\<rparr>)))
     | SDLK_HOME \<Rightarrow> Some (p\<lparr>current_frame := 0, target_audio_sample := 0\<rparr>)
     | SDLK_END \<Rightarrow>
        (case the_header p of
           None \<Rightarrow> None
         | Some h \<Rightarrow>
            (let f = sint (hdr_total_frames h - 1)
             in Some (p\<lparr>current_frame := f, target_audio_sample := sample_of f\<rparr>)))
     | SDLK_r \<Rightarrow>
        Some (p\<lparr>current_frame := 0, target_audio_sample := 0, audio_sample_pos := 0\<rparr>)
     | SDLK_ESCAPE \<Rightarrow> Some (p\<lparr>quit := True\<rparr>)
     | SDLK_other \<Rightarrow> Some p)"

subsection \<open>\<^verbatim>\<open>audio_callback\<close> of the memory-mapped player\<close>

text \<open>
  The output buffer is a list of \<^verbatim>\<open>float\<close> slots, each slot the 32 bits of the float
  (a float is copied bit for bit; \<^verbatim>\<open>memset\<close> to zero is \<open>0.0f\<close>). The 64-bit sample
  counters are integers: no file holds enough samples to overflow them.
\<close>

text \<open>\<^verbatim>\<open>len / sizeof(float) / channels\<close>: computed in \<^verbatim>\<open>size_t\<close>, stored to an \<^verbatim>\<open>int\<close>.\<close>

definition samples_needed_of :: "int \<Rightarrow> int \<Rightarrow> int" where
  "samples_needed_of len channels =
     sint (word_of_int ((len mod 2 ^ 64) div 4 div (channels mod 2 ^ 64)) :: 32 word)"

fun copy_channels ::
  "u8 list \<Rightarrow> int \<Rightarrow> nat \<Rightarrow> int \<Rightarrow> nat \<Rightarrow> nat list \<Rightarrow> u32 list \<Rightarrow> u32 list option" where
  "copy_channels mem ad nch pos i [] out = Some out"
| "copy_channels mem ad nch pos i (ch # chs) out =
     (case deref mem (ad + 4 * (pos * int nch + int ch)) 4 of
        None \<Rightarrow> None
      | Some bs \<Rightarrow> copy_channels mem ad nch pos i chs (out[i * nch + ch := of_nat (le_nat bs)]))"

fun zero_channels :: "nat \<Rightarrow> nat \<Rightarrow> nat list \<Rightarrow> u32 list \<Rightarrow> u32 list" where
  "zero_channels nch i [] out = out"
| "zero_channels nch i (ch # chs) out = zero_channels nch i chs (out[i * nch + ch := 0])"

text \<open>The cursor after one sample: \<^verbatim>\<open>pos++\<close>, then the unconditional wrap.\<close>

definition advance_fast :: "int \<Rightarrow> int \<Rightarrow> int" where
  "advance_fast total_n pos = (if pos + 1 \<ge> total_n then 0 else pos + 1)"

text \<open>The sample loop; the first numeric argument counts the iterations left.\<close>

fun fill_samples ::
  "u8 list \<Rightarrow> int \<Rightarrow> nat \<Rightarrow> int \<Rightarrow> nat \<Rightarrow> nat \<Rightarrow> int \<Rightarrow> u32 list \<Rightarrow> (u32 list \<times> int) option" where
  "fill_samples mem ad nch total_n 0 i pos out = Some (out, pos)"
| "fill_samples mem ad nch total_n (Suc k) i pos out =
     (case (if pos \<ge> 0 \<and> pos < total_n
            then copy_channels mem ad nch pos i [0..<nch] out
            else Some (zero_channels nch i [0..<nch] out)) of
        None \<Rightarrow> None
      | Some out' \<Rightarrow> fill_samples mem ad nch total_n k (Suc i) (advance_fast total_n pos) out')"

definition audio_callback :: "FastPlayerState \<Rightarrow> int \<Rightarrow> (u32 list \<times> FastPlayerState) option" where
  "audio_callback p len =
    (let stream = replicate (nat (len div 4)) 0 in
     if \<not> playing p \<or> \<not> has_audio p \<or> audio_data p = None then Some (stream, p)
     else
      (case (the_header p, mapped_data p, audio_data p) of
         (Some h, Region mem, Some ad) \<Rightarrow>
           if hdr_audio_channels h = 0 then None
           else
            (let samples_needed = samples_needed_of len (uint (hdr_audio_channels h));
                 target = target_audio_sample p;
                 drift = target - audio_sample_pos p;
                 pos = (if \<bar>drift\<bar> > uint (hdr_audio_sample_rate h) div 10
                        then target else audio_sample_pos p)
             in case fill_samples mem ad (unat (hdr_audio_channels h))
                       (sint (hdr_audio_samples h)) (nat samples_needed) 0 pos stream of
                  None \<Rightarrow> None
                | Some (out, pos') \<Rightarrow> Some (out, p\<lparr>audio_sample_pos := pos'\<rparr>))
       | _ \<Rightarrow> None))"

section \<open>The text player (\<^verbatim>\<open>src/unnamed/part_000\<close>)\<close>

subsection \<open>State\<close>

text \<open>
  \<^verbatim>\<open>struct AudioData\<close>, \<^verbatim>\<open>struct VideoInfo\<close> and \<^verbatim>\<open>struct PlayerState\<close>. A sample
  is a value of any type \<open>'s\<close>: the callback only copies samples. The fields of the text
  player carry the prefixes \<open>ad_\<close>, \<open>vi_\<close> and \<open>ps_\<close>, the memory-mapped player has
  fields of the same names.
\<close>

record 's AudioData =
  ad_sample_rate :: int
  ad_channels :: int
  ad_total_samples :: int
  ad_channel_data :: "'s list list"

record VideoInfo =
  vi_width :: int
  vi_height :: int
  vi_fps :: int
  vi_total_frames :: int
  vi_loop :: bool

record PlayerState =
  ps_playing :: bool
  ps_has_audio :: bool
  ps_current_frame :: int
  ps_target_audio_sample :: int
  ps_audio_sample_pos :: int
  ps_quit :: bool
  ps_seeking :: bool

text \<open>C++ integer division truncates towards zero.\<close>

definition tdiv :: "int \<Rightarrow> int \<Rightarrow> int" where
  "tdiv i j = sgn i * sgn j * (\<bar>i\<bar> div \<bar>j\<bar>)"

subsection \<open>\<^verbatim>\<open>audio_callback\<close> of the text player\<close>

fun copy_channels_text ::
  "'s list list \<Rightarrow> nat \<Rightarrow> int \<Rightarrow> int \<Rightarrow> 's \<Rightarrow> nat \<Rightarrow> nat list \<Rightarrow> 's list \<Rightarrow> 's list option" where
  "copy_channels_text cd nch total_n pos z i [] out = Some out"
| "copy_channels_text cd nch total_n pos z i (ch # chs) out =
     (if pos \<ge> 0 \<and> pos < total_n
      then (if ch < length cd \<and> nat pos < length (cd ! ch)
            then copy_channels_text cd nch total_n pos z i chs (out[i * nch + ch := cd ! ch ! nat pos])
            else None)
      else copy_channels_text cd nch total_n pos z i chs (out[i * nch + ch := z]))"

text \<open>The cursor after one sample: \<^verbatim>\<open>pos++\<close>, then the wrap when the video loops.\<close>

definition advance_text :: "bool \<Rightarrow> int \<Rightarrow> int \<Rightarrow> int" where
  "advance_text loop total_n pos = (if loop \<and> pos + 1 \<ge> total_n then 0 else pos + 1)"

fun fill_samples_text ::
  "'s list list \<Rightarrow> nat \<Rightarrow> int \<Rightarrow> bool \<Rightarrow> 's \<Rightarrow> nat \<Rightarrow> nat \<Rightarrow> int \<Rightarrow> 's list
     \<Rightarrow> ('s list \<times> int) option" where
  "fill_samples_text cd nch total_n loop z 0 i pos out = Some (out, pos)"
| "fill_samples_text cd nch total_n loop z (Suc k) i pos out =
     (case copy_channels_text cd nch total_n pos z i [0..<nch] out of
        None \<Rightarrow> None
      | Some out' \<Rightarrow>
          fill_samples_text cd nch total_n loop z k (Suc i) (advance_text loop total_n pos) out')"

text \<open>\<open>z\<close> is the sample \<open>0.0f\<close>.\<close>

definition audio_callback_text ::
  "'s \<Rightarrow> 's AudioData \<Rightarrow> VideoInfo \<Rightarrow> PlayerState \<Rightarrow> int \<Rightarrow> ('s list \<times> PlayerState) option" where
  "audio_callback_text z ad vi ps len =
    (let stream = replicate (nat (len div 4)) z in
     if \<not> ps_playing ps \<or> \<not> ps_has_audio ps then Some (stream, ps)
     else if ad_channels ad = 0 then None
     else
      (let samples_needed = samples_needed_of len (ad_channels ad);
           target = ps_target_audio_sample ps;
           drift = target - ps_audio_sample_pos ps;
           pos = (if \<bar>drift\<bar> > tdiv (ad_sample_rate ad) 10
                  then target else ps_audio_sample_pos ps)
       in case fill_samples_text (ad_channel_data ad) (nat (ad_channels ad))
                 (ad_total_samples ad) (vi_loop vi) z (nat samples_needed) 0 pos stream of
            None \<Rightarrow> None
          | Some (out, pos') \<Rightarrow> Some (out, ps\<lparr>ps_audio_sample_pos := pos'\<rparr>)))"

subsection \<open>The time update of the main loop\<close>

text \<open>
  \<open>target_frame\<close> stands for \<^verbatim>\<open>(int)(elapsed_ms / player.frame_duration_ms)\<close>, a value
  of the wall clock.
\<close>

definition time_update :: "(int \<Rightarrow> int) \<Rightarrow> int \<Rightarrow> FastPlayerState \<Rightarrow> FastPlayerState option" where
  "time_update sample_of target_frame p =
    (if playing p \<and> target_frame \<noteq> current_frame p
     then (case the_header p of
             None \<Rightarrow> None
           | Some h \<Rightarrow>
              (let p1 = p\<lparr>current_frame := target_frame,
                          target_audio_sample := sample_of target_frame\<rparr>
               in if current_frame p1 \<ge> sint (hdr_total_frames h)
                  then Some (p1\<lparr>current_frame := 0, target_audio_sample := 0\<rparr>)
                  else Some p1))
     else Some p)"

subsection \<open>A small container header, for concrete runs\<close>

definition example_header :: HMICFastHeader where
  "example_header = \<lparr> hdr_magic = HMICFAST, hdr_version = 1, hdr_width = 2, hdr_height = 1,
     hdr_fps = 30, hdr_total_frames = 5, hdr_has_audio = 1, hdr_compressed = 0,
     hdr_audio_sample_rate = 100, hdr_audio_channels = 1, hdr_audio_samples = 50,
     hdr_frame_index_offset = 59, hdr_audio_data_offset = 159 \<rparr>"

text \<open>
  A player whose mapping holds that header and 300 zero bytes (60 of index, 40 of
  frames, 200 of silent audio), stopped at frame 3.
\<close>

definition example_player :: FastPlayerState where
  "example_player = player0\<lparr> mapped_data := Region (header_bytes example_header @ replicate 300 0),
     header := Some 0, audio_data := Some 159, has_audio := True, current_frame := 3 \<rparr>"

subsection \<open>The cursor after a callback\<close>

definition cursor_after :: "FastPlayerState \<Rightarrow> int \<Rightarrow> int option" where
  "cursor_after p len = map_option (audio_sample_pos \<circ> snd) (audio_callback p len)"

text \<open>The example player while playing, the video 20 samples ahead of the audio cursor.\<close>

definition example_playing :: FastPlayerState where
  "example_playing = example_player\<lparr> playing := True, target_audio_sample := 20 \<rparr>"

text \<open>A text player with 50 samples of one channel, the video 5 samples ahead.\<close>

definition example_audio :: "int AudioData" where
  "example_audio = \<lparr> ad_sample_rate = 100, ad_channels = 1, ad_total_samples = 50,
     ad_channel_data = [replicate 50 7] \<rparr>"

definition example_video :: VideoInfo where
  "example_video = \<lparr> vi_width = 2, vi_height = 1, vi_fps = 30, vi_total_frames = 5,
     vi_loop = False \<rparr>"

definition example_text_player :: PlayerState where
  "example_text_player = \<lparr> ps_playing = True, ps_has_audio = True, ps_current_frame = 3,
     ps_target_audio_sample = 20, ps_audio_sample_pos = 15, ps_quit = False,
     ps_seeking = False \<rparr>"

section \<open>Strings of the text container\<close>

subsection \<open>\<^verbatim>\<open>std::string\<close> operations\<close>

text \<open>\<^verbatim>\<open>std::string::npos\<close>, and \<^verbatim>\<open>size_t\<close> arithmetic, which wraps at 64 bits.\<close>

definition npos :: nat where "npos = 2 ^ 64 - 1"

definition size_t_add :: "nat \<Rightarrow> nat \<Rightarrow> nat" where
  "size_t_add i j = (i + j) mod 2 ^ 64"

definition size_t_sub :: "nat \<Rightarrow> nat \<Rightarrow> nat" where
  "size_t_sub i j = (i + 2 ^ 64 - j mod 2 ^ 64) mod 2 ^ 64"

fun index_of :: "'a \<Rightarrow> 'a list \<Rightarrow> nat option" where
  "index_of c [] = None"
| "index_of c (d # s) = (if c = d then Some 0 else map_option Suc (index_of c s))"

text \<open>\<^verbatim>\<open>s.find(c, pos)\<close>: the first index at or after \<open>pos\<close> that holds \<open>c\<close>, else \<open>npos\<close>.\<close>

definition str_find :: "string \<Rightarrow> char \<Rightarrow> nat \<Rightarrow> nat" where
  "str_find s c pos = (case index_of c (drop pos s) of None \<Rightarrow> npos | Some i \<Rightarrow> pos + i)"

text \<open>\<^verbatim>\<open>s.find(p) == 0\<close> holds exactly when \<open>s\<close> begins with \<open>p\<close>.\<close>

definition starts_with :: "string \<Rightarrow> string \<Rightarrow> bool" where
  "starts_with s p = (take (length p) s = p)"

text \<open>\<^verbatim>\<open>s.substr(pos, n)\<close> throws \<^verbatim>\<open>std::out_of_range\<close> when \<open>pos > s.size()\<close>.\<close>

definition substr :: "string \<Rightarrow> nat \<Rightarrow> nat \<Rightarrow> string option" where
  "substr s pos n = (if pos > length s then None else Some (take n (drop pos s)))"

text \<open>
  The tokens that repeated \<^verbatim>\<open>std::getline(ss, token, sep)\<close> yields: the pieces between
  separators, without a last empty piece (at the end of the stream no token is read).
\<close>

fun getline_tokens :: "char \<Rightarrow> string \<Rightarrow> string list" where
  "getline_tokens sep [] = []"
| "getline_tokens sep (c # s) =
     (if c = sep then [] # getline_tokens sep s
      else (case getline_tokens sep s of
              [] \<Rightarrow> [[c]]
            | t # ts \<Rightarrow> (c # t) # ts))"

subsection \<open>\<^verbatim>\<open>std::to_string\<close> and \<^verbatim>\<open>std::stoi\<close>\<close>

definition digit_chars :: string where "digit_chars = ''0123456789''"

definition digit_char :: "nat \<Rightarrow> char" where "digit_char d = digit_chars ! d"

definition is_digit :: "char \<Rightarrow> bool" where "is_digit c = (c \<in> set digit_chars)"

definition digit_val :: "char \<Rightarrow> nat" where
  "digit_val c = (case index_of c digit_chars of None \<Rightarrow> 0 | Some d \<Rightarrow> d)"

function digits_of :: "nat \<Rightarrow> string" where
  "digits_of n = (if n < 10 then [digit_char n] else digits_of (n div 10) @ [digit_char (n mod 10)])"
  by pat_completeness auto
termination
  by (relation "measure id") auto

declare digits_of.simps [simp del]

definition to_string :: "int \<Rightarrow> string" where
  "to_string i = (if i < 0 then CHR ''-'' # digits_of (nat (- i)) else digits_of (nat i))"

text \<open>\<^verbatim>\<open>isspace\<close> in the C locale: space, \<^verbatim>\<open>\t \n \v \f \r\<close>.\<close>

definition is_space :: "char \<Rightarrow> bool" where
  "is_space c = (c \<in> {CHR '' '', CHR 0x09, CHR 0x0A, CHR 0x0B, CHR 0x0C, CHR 0x0D})"

fun parse_digits :: "nat \<Rightarrow> string \<Rightarrow> nat" where
  "parse_digits acc [] = acc"
| "parse_digits acc (c # s) =
     (if is_digit c then parse_digits (10 * acc + digit_val c) s else acc)"

text \<open>
  \<^verbatim>\<open>std::stoi\<close>: leading white space, an optional sign, then the longest run of
  digits; \<^verbatim>\<open>std::invalid_argument\<close> without a digit, \<^verbatim>\<open>std::out_of_range\<close> when the
  value is no \<^verbatim>\<open>int\<close>. Both exceptions are \<open>None\<close>.
\<close>

definition stoi :: "string \<Rightarrow> int option" where
  "stoi s =
    (let s1 = dropWhile is_space s;
         neg = (s1 \<noteq> [] \<and> hd s1 = CHR ''-'');
         s2 = (if s1 \<noteq> [] \<and> (hd s1 = CHR ''-'' \<or> hd s1 = CHR ''+'') then tl s1 else s1)
     in if s2 = [] \<or> \<not> is_digit (hd s2) then None
        else (let v = int (parse_digits 0 s2); r = (if neg then - v else v)
              in if INT_MIN \<le> r \<and> r \<le> INT_MAX then Some r else None))"

section \<open>The spatial encoder (\<^verbatim>\<open>src/con.cpp\<close>)\<close>

subsection \<open>Colours as map keys\<close>

text \<open>\<^verbatim>\<open>RGBA::operator<\<close>: the order of the keys of every \<^verbatim>\<open>std::map<RGBA, ...>\<close>.\<close>

instantiation RGBA :: linorder
begin

definition less_RGBA :: "RGBA \<Rightarrow> RGBA \<Rightarrow> bool" where
  "less_RGBA c d =
     (if rgba_r c \<noteq> rgba_r d then rgba_r c < rgba_r d
      else if rgba_g c \<noteq> rgba_g d then rgba_g c < rgba_g d
      else if rgba_b c \<noteq> rgba_b d then rgba_b c < rgba_b d
      else rgba_a c < rgba_a d)"

definition less_eq_RGBA :: "RGBA \<Rightarrow> RGBA \<Rightarrow> bool" where
  "less_eq_RGBA c d = (c < d \<or> c = d)"

instance
proof
  fix c d e :: RGBA
  show "(c < d) = (c \<le> d \<and> \<not> d \<le> c)"
    by (auto simp: less_RGBA_def less_eq_RGBA_def split: if_splits)
  show "c \<le> c"
    by (simp add: less_eq_RGBA_def)
  show "c \<le> d \<Longrightarrow> d \<le> e \<Longrightarrow> c \<le> e"
    by (auto simp: less_RGBA_def less_eq_RGBA_def split: if_splits)
  show "c \<le> d \<Longrightarrow> d \<le> c \<Longrightarrow> c = d"
    by (auto simp: less_RGBA_def less_eq_RGBA_def split: if_splits)
  show "c \<le> d \<or> d \<le> c"
    by (cases c; cases d) (auto simp: less_RGBA_def less_eq_RGBA_def split: if_splits)
qed

end

subsection \<open>\<^verbatim>\<open>std::map\<close> as a list of entries in key order\<close>

text \<open>
  \<open>map_modify k d f m\<close> is \<^verbatim>\<open>f(m[k])\<close>: \<^verbatim>\<open>operator[]\<close> finds the entry of \<open>k\<close> or
  inserts one with the default value \<open>d\<close> at its place in the order; \<open>f\<close> then changes
  the value in place.
\<close>

fun map_modify :: "'k::linorder \<Rightarrow> 'v \<Rightarrow> ('v \<Rightarrow> 'v) \<Rightarrow> ('k \<times> 'v) list \<Rightarrow> ('k \<times> 'v) list" where
  "map_modify k d f [] = [(k, f d)]"
| "map_modify k d f ((k', v) # m) =
     (if k = k' then (k', f v) # m
      else if k < k' then (k, f d) # (k', v) # m
      else (k', v) # map_modify k d f m)"

text \<open>\<^verbatim>\<open>m[k].push_back(v)\<close> for a map of vectors.\<close>

definition map_push_back :: "'k::linorder \<Rightarrow> 'a \<Rightarrow> ('k \<times> 'a list) list \<Rightarrow> ('k \<times> 'a list) list" where
  "map_push_back k v m = map_modify k [] (\<lambda>vs. vs @ [v]) m"

text \<open>The elements of a map of vectors, each with its key, in iteration order.\<close>

definition entries :: "('k \<times> 'a list) list \<Rightarrow> ('k \<times> 'a) list" where
  "entries m = concat (map (\<lambda>(k, vs). map (Pair k) vs) m)"

subsection \<open>Commands\<close>

text \<open>
  \<^verbatim>\<open>struct Command { std::string cmd; int x, end_x, y; }\<close>, the fields with the prefix
  \<open>c_\<close>. Two commands are equal, and equivalent for \<^verbatim>\<open>std::set<Command>\<close>, exactly
  when all four fields are.
\<close>

record Command =
  c_cmd :: string
  c_x :: int
  c_end_x :: int
  c_y :: int

text \<open>The text of a command, coordinates 1-based.\<close>

definition command_text :: "int \<Rightarrow> int \<Rightarrow> int \<Rightarrow> int \<Rightarrow> string" where
  "command_text run_length x end_x y =
     (if run_length = 1
      then ''P='' @ to_string (x + 1) @ ''x'' @ to_string (y + 1)
      else ''PL='' @ to_string (x + 1) @ ''x'' @ to_string (y + 1) @ ''-''
           @ to_string (end_x + 1) @ ''x'' @ to_string (y + 1))"

subsection \<open>\<^verbatim>\<open>process_frame_rows_parallel\<close>\<close>

text \<open>\<^verbatim>\<open>frame_pixels[i]\<close>; an index outside the vector is undefined behaviour (\<open>None\<close>).\<close>

definition pixel_at :: "RGBA list \<Rightarrow> int \<Rightarrow> RGBA option" where
  "pixel_at px i = (if 0 \<le> i \<and> nat i < length px then Some (px ! nat i) else None)"

text \<open>
  \<^verbatim>\<open>frame_pixels[y * w + x]\<close> and \<^verbatim>\<open>frame_pixels[y * w + x + run_length]\<close>, the
  index computed in \<^verbatim>\<open>int\<close>.
\<close>

definition pixel_xy :: "RGBA list \<Rightarrow> int \<Rightarrow> int \<Rightarrow> int \<Rightarrow> RGBA option" where
  "pixel_xy px w y x = (case pixel_index y w x of None \<Rightarrow> None | Some i \<Rightarrow> pixel_at px i)"

definition pixel_run :: "RGBA list \<Rightarrow> int \<Rightarrow> int \<Rightarrow> int \<Rightarrow> int \<Rightarrow> RGBA option" where
  "pixel_run px w y x run_length =
     (case pixel_index y w x of
        None \<Rightarrow> None
      | Some i \<Rightarrow> (case int_add i run_length of None \<Rightarrow> None | Some j \<Rightarrow> pixel_at px j))"

text \<open>The inner \<^verbatim>\<open>while\<close>: extends the run while the next pixel has the colour.\<close>

function run_length_from :: "RGBA list \<Rightarrow> int \<Rightarrow> int \<Rightarrow> int \<Rightarrow> RGBA \<Rightarrow> int \<Rightarrow> int option" where
  "run_length_from px w y x pixel_color run_length =
     (if x + run_length < w
      then (case pixel_run px w y x run_length of
              None \<Rightarrow> None
            | Some c \<Rightarrow>
                if c = pixel_color then run_length_from px w y x pixel_color (run_length + 1)
                else Some run_length)
      else Some run_length)"
  by pat_completeness auto
termination
  by (relation "measure (\<lambda>(px, w, y, x, pixel_color, run_length). nat (w - x - run_length))") auto

declare run_length_from.simps [simp del]

lemma run_length_from_ge:
  "run_length_from px w y x pixel_color run_length = Some n \<Longrightarrow> run_length \<le> n"
proof (induction px w y x pixel_color run_length rule: run_length_from.induct)
  case (1 px w y x pixel_color run_length)
  from "1.prems" show ?case
    by (subst (asm) run_length_from.simps) (auto split: if_splits option.splits dest: "1.IH")
qed

text \<open>
  The \<^verbatim>\<open>while (x < w)\<close> loop over one row. The sums \<^verbatim>\<open>x + run_length\<close> stay at or
  below \<open>w\<close>, and \<^verbatim>\<open>x + 1\<close> and \<^verbatim>\<open>y + 1\<close> of the command text at or below \<open>w\<close> and
  \<open>h\<close>, which are \<^verbatim>\<open>int\<close>s.
\<close>

function encode_row ::
  "RGBA list \<Rightarrow> int \<Rightarrow> int \<Rightarrow> int \<Rightarrow> (RGBA \<times> Command list) list
     \<Rightarrow> (RGBA \<times> Command list) list option" where
  "encode_row px w y x local_commands =
     (if x < w
      then (case pixel_xy px w y x of
              None \<Rightarrow> None
            | Some pixel_color \<Rightarrow>
               (case run_length_from px w y x pixel_color 1 of
                  None \<Rightarrow> None
                | Some run_length \<Rightarrow>
                   (let end_x = x + run_length - 1;
                        cmd = command_text run_length x end_x y
                    in encode_row px w y (x + run_length)
                         (map_push_back pixel_color
                            \<lparr>c_cmd = cmd, c_x = x, c_end_x = end_x, c_y = y\<rparr> local_commands))))
      else Some local_commands)"
  by pat_completeness auto
termination
proof (relation "measure (\<lambda>(px, w, y, x, local_commands). nat (w - x))", goal_cases)
  case 1 show ?case by simp
next
  case (2 px w y x local_commands pixel_color run_length)
  then show ?case using run_length_from_ge[of px w y x pixel_color 1 run_length] by simp
qed

declare encode_row.simps [simp del]

text \<open>The \<^verbatim>\<open>for\<close> loop over the rows \<open>start_row \<le> y < end_row\<close>.\<close>

function process_frame_rows_parallel ::
  "RGBA list \<Rightarrow> int \<Rightarrow> int \<Rightarrow> int \<Rightarrow> int \<Rightarrow> (RGBA \<times> Command list) list
     \<Rightarrow> (RGBA \<times> Command list) list option" where
  "process_frame_rows_parallel frame_pixels w h start_row end_row local_commands =
     (if start_row < end_row
      then (case encode_row frame_pixels w start_row 0 local_commands of
              None \<Rightarrow> None
            | Some m \<Rightarrow> process_frame_rows_parallel frame_pixels w h (start_row + 1) end_row m)
      else Some local_commands)"
  by pat_completeness auto
termination
  by (relation "measure (\<lambda>(px, w, h, start_row, end_row, m). nat (end_row - start_row))") auto

declare process_frame_rows_parallel.simps [simp del]

subsection \<open>One frame in \<^verbatim>\<open>main\<close>: the rows split over the threads\<close>

text \<open>
  The rows \<^verbatim>\<open>[start_row, end_row)\<close> that \<^verbatim>\<open>main\<close> hands to thread \<open>t\<close> of
  \<open>num_threads\<close>: \<^verbatim>\<open>rows_per_chunk = std::max(1, h / num_threads)\<close>, and the last
  thread takes the rows up to \<open>h\<close>. The products are at most \<open>max h num_threads\<close>.
\<close>

definition thread_rows :: "int \<Rightarrow> int \<Rightarrow> int \<Rightarrow> int \<times> int" where
  "thread_rows h num_threads t =
     (let rows_per_chunk = max 1 (tdiv h num_threads)
      in (t * rows_per_chunk,
          if t = num_threads - 1 then h else (t + 1) * rows_per_chunk))"

text \<open>
  The merge of one thread result into \<^verbatim>\<open>frame_commands[frame_idx]\<close>: for every
  colour of the result, in key order, its commands are appended to the list of the
  colour (\<^verbatim>\<open>insert(end(), cmds.begin(), cmds.end())\<close>).
\<close>

fun merge_result ::
  "(RGBA \<times> Command list) list \<Rightarrow> (RGBA \<times> Command list) list \<Rightarrow> (RGBA \<times> Command list) list" where
  "merge_result [] frame_cmds = frame_cmds"
| "merge_result ((color, cmds) # result) frame_cmds =
     merge_result result (map_modify color [] (\<lambda>v. v @ cmds) frame_cmds)"

text \<open>
  The body of the loop over \<^verbatim>\<open>frame_idx\<close> in \<^verbatim>\<open>main\<close>, for one frame and
  \<open>num_threads = std::thread::hardware_concurrency()\<close>: every thread encodes its rows
  into its own map \<^verbatim>\<open>thread_results[t]\<close>, all threads are joined, and the results are
  merged in the order of the threads. The threads share nothing but the frame they
  read, so they are run one after the other here; undefined behaviour in one of them
  is undefined behaviour of the program (\<open>None\<close>). With \<open>num_threads = 0\<close> the division
  \<^verbatim>\<open>h / num_threads\<close> is undefined.
\<close>

definition main_process_frame ::
  "RGBA list \<Rightarrow> int \<Rightarrow> int \<Rightarrow> int \<Rightarrow> (RGBA \<times> Command list) list option" where
  "main_process_frame frame_pixels w h num_threads =
     (if num_threads \<le> 0 then None
      else case those (map (\<lambda>t. case thread_rows h num_threads t of
                                   (start_row, end_row) \<Rightarrow>
                                     process_frame_rows_parallel frame_pixels w h start_row end_row [])
                         [0..num_threads - 1]) of
             None \<Rightarrow> None
           | Some thread_results \<Rightarrow>
               Some (foldl (\<lambda>frame_cmds result. merge_result result frame_cmds) [] thread_results))"





subsection \<open>Two small frames, for concrete runs\<close>

definition red :: RGBA where "red = RGBA 255 0 0 255"
definition blue :: RGBA where "blue = RGBA 0 0 255 255"

text \<open>A uniform red frame of 2 by 1 pixels, and a frame of 3 by 2 pixels in two colours.\<close>

definition red_frame :: "RGBA list" where "red_frame = [red, red]"


section \<open>Rendering in the text player\<close>

subsection \<open>Drawing\<close>







subsection \<open>\<^verbatim>\<open>render_frame\<close>\<close>





text \<open>\<^verbatim>\<open>struct Frame\<close> of the text player.\<close>

record Frame =
  frame_number :: int
  commands :: "(RGBA \<times> string list) list"







section \<open>The temporal merger (\<^verbatim>\<open>build_hmic_data\<close> in \<^verbatim>\<open>src/con.cpp\<close>)\<close>

subsection \<open>\<^verbatim>\<open>frames_to_range_string\<close>\<close>





subsection \<open>The forward extension of one command\<close>

text \<open>
  The search in the colour bucket of the next frame: the first command with the same
  \<open>(x, end_x, y)\<close> that is not in \<^verbatim>\<open>merged_commands[next_frame_idx]\<close>.
\<close>

fun find_match :: "Command list \<Rightarrow> Command \<Rightarrow> Command set \<Rightarrow> Command option" where
  "find_match [] cmd_data merged = None"
| "find_match (next_cmd_data # cmds) cmd_data merged =
     (if c_x next_cmd_data = c_x cmd_data \<and> c_end_x next_cmd_data = c_end_x cmd_data
         \<and> c_y next_cmd_data = c_y cmd_data \<and> next_cmd_data \<notin> merged
      then Some next_cmd_data
      else find_match cmds cmd_data merged)"

text \<open>
  \<open>match_in frame color cmd_data merged\<close>: the body of the loop over
  \<open>next_frame_idx\<close>, up to \<^verbatim>\<open>match_found\<close>; \<^verbatim>\<open>count(color)\<close> guards the lookup.
\<close>

definition match_in ::
  "(RGBA \<times> Command list) list \<Rightarrow> RGBA \<Rightarrow> Command \<Rightarrow> Command set \<Rightarrow> Command option" where
  "match_in frame color cmd_data merged =
     (case map_of frame color of
        None \<Rightarrow> None
      | Some cmds \<Rightarrow> find_match cmds cmd_data merged)"

text \<open>
  The loop \<^verbatim>\<open>for (next_frame_idx = frame_idx + 1; next_frame_idx < n_frames; ...)\<close>. The
  state is \<^verbatim>\<open>consecutive_frames\<close> and \<^verbatim>\<open>merged_commands\<close>. An index outside
  \<^verbatim>\<open>frame_commands\<close> or \<^verbatim>\<open>merged_commands\<close> is undefined behaviour (\<open>None\<close>).
\<close>

function extend_frames ::
  "(RGBA \<times> Command list) list list \<Rightarrow> int \<Rightarrow> RGBA \<Rightarrow> Command \<Rightarrow> int
     \<Rightarrow> int list \<times> Command set list \<Rightarrow> (int list \<times> Command set list) option" where
  "extend_frames frame_commands n_frames color cmd_data next_frame_idx
       (consecutive_frames, merged_commands) =
     (if next_frame_idx < n_frames
      then (if 0 \<le> next_frame_idx \<and> nat next_frame_idx < length frame_commands
               \<and> nat next_frame_idx < length merged_commands
            then (case match_in (frame_commands ! nat next_frame_idx) color cmd_data
                         (merged_commands ! nat next_frame_idx) of
                    None \<Rightarrow> Some (consecutive_frames, merged_commands)
                  | Some next_cmd_data \<Rightarrow>
                      extend_frames frame_commands n_frames color cmd_data (next_frame_idx + 1)
                        (consecutive_frames @ [next_frame_idx + 1],
                         merged_commands[nat next_frame_idx :=
                           insert next_cmd_data (merged_commands ! nat next_frame_idx)]))
            else None)
      else Some (consecutive_frames, merged_commands))"
  by pat_completeness auto
termination
  by (relation "measure (\<lambda>(fc, n_frames, color, cmd_data, next_frame_idx, st).
        nat (n_frames - next_frame_idx))") auto

declare extend_frames.simps [simp del]

subsection \<open>The merge loops\<close>








subsection \<open>What is written\<close>







section \<open>Parsing the text container (\<^verbatim>\<open>src/unnamed/part_000\<close>)\<close>

subsection \<open>\<^verbatim>\<open>parse_frame_range\<close>\<close>

text \<open>
  The loop \<^verbatim>\<open>for (int i = start; i <= end; i++) frames.push_back(i)\<close>. The counter
  is an \<^verbatim>\<open>int\<close>: for \<^verbatim>\<open>end == INT_MAX\<close> the test never fails and \<^verbatim>\<open>i++\<close>
  overflows, so the call does not return (\<open>None\<close>).
\<close>

function range_loop :: "int \<Rightarrow> int \<Rightarrow> int list \<Rightarrow> int list option" where
  "range_loop i end_f frame_nums =
     (if i \<le> end_f
      then (case int_add i 1 of
              None \<Rightarrow> None
            | Some i' \<Rightarrow> range_loop i' end_f (frame_nums @ [i]))
      else Some frame_nums)"
  by pat_completeness auto
termination
  by (relation "measure (\<lambda>(i, end_f, frame_nums). nat (end_f + 1 - i))")
     (auto simp: int_add_def split: if_splits)

declare range_loop.simps [simp del]

text \<open>
  One token: \<^verbatim>\<open>"a-b"\<close> gives \<open>a, ..., b\<close>, any other token one number. An exception of
  \<^verbatim>\<open>std::stoi\<close> or \<^verbatim>\<open>substr\<close> leaves the parser (\<open>None\<close>).
\<close>

definition parse_range_token :: "string \<Rightarrow> int list option" where
  "parse_range_token token =
     (let dash = str_find token CHR ''-'' 0 in
      if dash \<noteq> npos then
        (case (substr token 0 dash, substr token (size_t_add dash 1) npos) of
           (Some ss, Some es) \<Rightarrow>
             (case (stoi ss, stoi es) of
                (Some start, Some end_f) \<Rightarrow> range_loop start end_f []
              | _ \<Rightarrow> None)
         | _ \<Rightarrow> None)
      else (case stoi token of None \<Rightarrow> None | Some f \<Rightarrow> Some [f]))"

fun parse_range_tokens :: "string list \<Rightarrow> int list option" where
  "parse_range_tokens [] = Some []"
| "parse_range_tokens (token # tokens) =
     (case parse_range_token token of
        None \<Rightarrow> None
      | Some fs \<Rightarrow>
          (case parse_range_tokens tokens of None \<Rightarrow> None | Some gs \<Rightarrow> Some (fs @ gs)))"

definition parse_frame_range :: "string \<Rightarrow> int list option" where
  "parse_frame_range range_str = parse_range_tokens (getline_tokens CHR '','' range_str)"

text \<open>
  A frame has an unconsumed match for a command: its bucket of the colour holds a command
  with the same \<open>(x, end_x, y)\<close> that is not in the merged set of the frame.
\<close>

definition unconsumed_match ::
  "(RGBA \<times> Command list) list \<Rightarrow> RGBA \<Rightarrow> Command \<Rightarrow> Command set \<Rightarrow> bool" where
  "unconsumed_match frame color cmd_data merged =
     (case map_of frame color of
        None \<Rightarrow> False
      | Some cmds \<Rightarrow>
          (\<exists>d\<in>set cmds. c_x d = c_x cmd_data \<and> c_end_x d = c_end_x cmd_data
              \<and> c_y d = c_y cmd_data \<and> d \<notin> merged))"

subsection \<open>Four small frames of one row, for concrete runs\<close>

definition run_a :: Command where
  "run_a = \<lparr>c_cmd = ''PL=1x1-2x1'', c_x = 0, c_end_x = 1, c_y = 0\<rparr>"

text \<open>The red run is in frames 0, 1 and 3; frame 2 has the same run in blue.\<close>

definition example_frames :: "(RGBA \<times> Command list) list list" where
  "example_frames = [[(red, [run_a])], [(red, [run_a])], [(blue, [run_a])], [(red, [run_a])]]"

subsection \<open>\<^verbatim>\<open>parse_rgba\<close>\<close>

text \<open>The loop \<^verbatim>\<open>while (getline(ss, token, ',') && idx < 4)\<close>; a \<^verbatim>\<open>uint8_t\<close> keeps the low byte.\<close>

fun rgba_tokens :: "string list \<Rightarrow> nat \<Rightarrow> RGBA \<Rightarrow> RGBA option" where
  "rgba_tokens [] idx color = Some color"
| "rgba_tokens (token # tokens) idx color =
     (if idx < 4 then
        (case stoi token of
           None \<Rightarrow> None
         | Some val \<Rightarrow>
             rgba_tokens tokens (idx + 1)
               (if idx = 0 then RGBA (of_int val) (rgba_g color) (rgba_b color) (rgba_a color)
                else if idx = 1 then RGBA (rgba_r color) (of_int val) (rgba_b color) (rgba_a color)
                else if idx = 2 then RGBA (rgba_r color) (rgba_g color) (of_int val) (rgba_a color)
                else RGBA (rgba_r color) (rgba_g color) (rgba_b color) (of_int val)))
      else Some color)"

definition parse_rgba :: "string \<Rightarrow> RGBA option" where
  "parse_rgba color_str =
     (let start = str_find color_str CHR ''('' 0;
          end_p = str_find color_str CHR '')'' 0 in
      if start = npos \<or> end_p = npos then Some (RGBA 0 0 0 255)
      else (case substr color_str (size_t_add start 1) (size_t_sub (size_t_sub end_p start) 1) of
              None \<Rightarrow> None
            | Some vals \<Rightarrow> rgba_tokens (getline_tokens CHR '','' vals) 0 (RGBA 0 0 0 255)))"

subsection \<open>A line of the frame section of \<^verbatim>\<open>parse_hmicav\<close>\<close>

text \<open>
  The variables the branch \<^verbatim>\<open>state == VIDEO_FRAMES\<close> reads and writes: the global
  \<^verbatim>\<open>frames\<close>, \<^verbatim>\<open>video_info.total_frames\<close>, and the locals
  \<^verbatim>\<open>current_frame_range\<close> and \<^verbatim>\<open>current_color\<close>.
\<close>

record parser_state =
  frames :: "Frame list"
  total_frames :: int
  current_frame_range :: string
  current_color :: RGBA

text \<open>
  The loop \<^verbatim>\<open>for (int fn : frame_nums)\<close> with its guard. An index past the end of
  \<^verbatim>\<open>frames\<close> is undefined behaviour (\<open>None\<close>).
\<close>

fun store_command :: "string \<Rightarrow> RGBA \<Rightarrow> int \<Rightarrow> int list \<Rightarrow> Frame list \<Rightarrow> Frame list option" where
  "store_command line color total_n [] fs = Some fs"
| "store_command line color total_n (fn # frame_nums) fs =
     (if fn > 0 \<and> fn \<le> total_n
      then (if nat (fn - 1) < length fs
            then store_command line color total_n frame_nums
                   (fs[nat (fn - 1) :=
                      (fs ! nat (fn - 1))\<lparr>frame_number := fn,
                         commands := map_push_back color line (commands (fs ! nat (fn - 1)))\<rparr>])
            else None)
      else store_command line color total_n frame_nums fs)"

text \<open>The branch \<^verbatim>\<open>else if (state == VIDEO_FRAMES)\<close> for one trimmed, non-empty line.\<close>

definition video_frames_line :: "string \<Rightarrow> parser_state \<Rightarrow> parser_state option" where
  "video_frames_line line st =
     (if hd line = CHR ''F'' \<and> str_find line CHR ''{'' 0 \<noteq> npos then
        (case substr line 1 (size_t_sub (str_find line CHR ''{'' 0) 1) of
           None \<Rightarrow> None
         | Some r \<Rightarrow> Some (st\<lparr>current_frame_range := r\<rparr>))
      else if starts_with line ''rgba('' then
        (case substr line 0 (str_find line CHR ''{'' 0) of
           None \<Rightarrow> None
         | Some s \<Rightarrow>
            (case parse_rgba s of
               None \<Rightarrow> None
             | Some c \<Rightarrow> Some (st\<lparr>current_color := c\<rparr>)))
      else if starts_with line ''P='' \<or> starts_with line ''PL='' then
        (case parse_frame_range (current_frame_range st) of
           None \<Rightarrow> None
         | Some frame_nums \<Rightarrow>
            (case store_command line (current_color st) (total_frames st) frame_nums (frames st) of
               None \<Rightarrow> None
             | Some fs \<Rightarrow> Some (st\<lparr>frames := fs\<rparr>)))
      else Some st)"

text \<open>A parser in a block for the frames 2 to 5 of a video of three frames.\<close>

definition example_parser :: parser_state where
  "example_parser = \<lparr> frames = replicate 3 \<lparr>frame_number = 0, commands = []\<rparr>,
     total_frames = 3, current_frame_range = ''2-5'', current_color = red \<rparr>"

subsection \<open>Reading the blocks back\<close>

text \<open>A block with range string \<open>range_str\<close> belongs to the frame with 1-based number \<open>fn\<close>.\<close>

definition block_covers :: "string \<Rightarrow> int \<Rightarrow> bool" where
  "block_covers range_str fn =
     (case parse_frame_range range_str of None \<Rightarrow> False | Some fns \<Rightarrow> fn \<in> set fns)"

text \<open>The commands, with their colours, of all temporal blocks that belong to frame \<open>fn\<close>.\<close>

definition temporal_entries ::
  "(string \<times> (RGBA \<times> string list) list) list \<Rightarrow> int \<Rightarrow> (RGBA \<times> string) list" where
  "temporal_entries tc fn =
     concat (map (\<lambda>(range_str, block). if block_covers range_str fn then entries block else []) tc)"







section \<open>Writing the binary container (\<^verbatim>\<open>write_hmicfast_binary\<close>)\<close>

subsection \<open>The output stream\<close>

text \<open>
  A \<^verbatim>\<open>std::ofstream\<close> opened on a new file: the bytes of the file and the put
  position. A write at the put position replaces the bytes there and extends the file
  at its end. Every write succeeds (the source does not test the stream either).
\<close>

record ofstream =
  file_bytes :: "u8 list"
  put_pos :: nat

definition stream_write :: "u8 list \<Rightarrow> ofstream \<Rightarrow> ofstream" where
  "stream_write bs s =
     \<lparr> file_bytes = take (put_pos s) (file_bytes s) @ bs @ drop (put_pos s + length bs) (file_bytes s),
       put_pos = put_pos s + length bs \<rparr>"

definition seekp :: "nat \<Rightarrow> ofstream \<Rightarrow> ofstream" where
  "seekp n s = s\<lparr>put_pos := n\<rparr>"

subsection \<open>Frames\<close>

text \<open>
  The loop over the frames. \<open>zc\<close> stands for \<^verbatim>\<open>ZSTD_compress\<close> at level 3: the
  compressed bytes, or \<open>None\<close> when \<^verbatim>\<open>ZSTD_isError\<close> holds. The result is the stream,
  the index table and whether all frames were written; at the first failed compression
  the function returns \<^verbatim>\<open>false\<close>.
\<close>

fun write_frames ::
  "(u8 list \<Rightarrow> u8 list option) \<Rightarrow> bool \<Rightarrow> RGBA list list \<Rightarrow> nat \<Rightarrow> ofstream
     \<Rightarrow> FrameIndexEntry list \<Rightarrow> bool \<times> ofstream \<times> FrameIndexEntry list" where
  "write_frames zc compress_frames [] i s index_table = (True, s, index_table)"
| "write_frames zc compress_frames (frame # frames_data) i s index_table =
     (let index_table1 = index_table[i := (index_table ! i)\<lparr>entry_offset := of_nat (put_pos s)\<rparr>];
          frame_size = length frame * sizeof_RGBA
      in if compress_frames then
           (case zc (frame_bytes frame) of
              Some compressed_data \<Rightarrow>
                write_frames zc compress_frames frames_data (i + 1)
                  (stream_write compressed_data s)
                  (index_table1[i := (index_table1 ! i)\<lparr>entry_size := of_nat (length compressed_data)\<rparr>])
            | None \<Rightarrow> (False, s, index_table1))
         else
           write_frames zc compress_frames frames_data (i + 1)
             (stream_write (frame_bytes frame) s)
             (index_table1[i := (index_table1 ! i)\<lparr>entry_size := of_nat frame_size\<rparr>]))"

subsection \<open>Audio\<close>

text \<open>
  A \<^verbatim>\<open>float\<close> sample is its 32 bits. \<^verbatim>\<open>audio->channel_data[ch][i]\<close> outside a
  vector is undefined behaviour (\<open>None\<close>).
\<close>

definition sample_at :: "u32 AudioData \<Rightarrow> nat \<Rightarrow> nat \<Rightarrow> u32 option" where
  "sample_at audio ch i =
     (if ch < length (ad_channel_data audio) \<and> i < length (ad_channel_data audio ! ch)
      then Some (ad_channel_data audio ! ch ! i) else None)"

fun write_samples :: "u32 AudioData \<Rightarrow> (nat \<times> nat) list \<Rightarrow> ofstream \<Rightarrow> ofstream option" where
  "write_samples audio [] s = Some s"
| "write_samples audio ((i, ch) # rest) s =
     (case sample_at audio ch i of
        None \<Rightarrow> None
      | Some sample \<Rightarrow> write_samples audio rest (stream_write (le_bytes 4 (unat sample)) s))"

subsection \<open>The writer\<close>

text \<open>
  The result is \<open>None\<close> for undefined behaviour, else the return value and the bytes of
  the file. The file is taken to open (\<^verbatim>\<open>file.is_open()\<close>).
\<close>

definition write_hmicfast_binary ::
  "(u8 list \<Rightarrow> u8 list option) \<Rightarrow> int \<Rightarrow> int \<Rightarrow> int \<Rightarrow> RGBA list list \<Rightarrow> u32 AudioData option
     \<Rightarrow> bool \<Rightarrow> (bool \<times> u8 list) option" where
  "write_hmicfast_binary zc w h fps_v frames_data audio compress_frames =
    (let with_audio = (case audio of None \<Rightarrow> False | Some a \<Rightarrow> ad_total_samples a > 0);
         header0 = \<lparr> hdr_magic = HMICFAST, hdr_version = 1, hdr_width = of_int w,
           hdr_height = of_int h, hdr_fps = of_int fps_v,
           hdr_total_frames = of_nat (length frames_data),
           hdr_has_audio = (if with_audio then 1 else 0),
           hdr_compressed = (if compress_frames then 1 else 0),
           hdr_audio_sample_rate =
             (case audio of Some a \<Rightarrow> if with_audio then of_int (ad_sample_rate a) else 0 | None \<Rightarrow> 0),
           hdr_audio_channels =
             (case audio of Some a \<Rightarrow> if with_audio then of_int (ad_channels a) else 0 | None \<Rightarrow> 0),
           hdr_audio_samples =
             (case audio of Some a \<Rightarrow> if with_audio then of_int (ad_total_samples a) else 0 | None \<Rightarrow> 0),
           hdr_frame_index_offset = 0, hdr_audio_data_offset = 0 \<rparr>;
         s1 = stream_write (header_bytes header0) \<lparr>file_bytes = [], put_pos = 0\<rparr>;
         frame_index_pos = put_pos s1;
         index_table0 = replicate (length frames_data) \<lparr>entry_offset = 0, entry_size = 0\<rparr>;
         s2 = stream_write (concat (map entry_bytes index_table0)) s1
     in case write_frames zc compress_frames frames_data 0 s2 index_table0 of
          (False, s3, index_table) \<Rightarrow> Some (False, file_bytes s3)
        | (True, s3, index_table) \<Rightarrow>
           (case (if with_audio
                  then (case audio of
                          None \<Rightarrow> None
                        | Some a \<Rightarrow>
                            map_option (Pair (of_nat (put_pos s3)))
                              (write_samples a
                                 (List.product [0..<nat (ad_total_samples a)]
                                               [0..<nat (ad_channels a)]) s3))
                  else Some (0, s3)) of
              None \<Rightarrow> None
            | Some (audio_offset, s4) \<Rightarrow>
               (let header1 = header0\<lparr>hdr_audio_data_offset := audio_offset,
                                       hdr_frame_index_offset := of_nat frame_index_pos\<rparr>;
                    s5 = stream_write (header_bytes header1) (seekp 0 s4);
                    s6 = stream_write (concat (map entry_bytes index_table)) (seekp frame_index_pos s5)
                in Some (True, file_bytes s6))))"

subsection \<open>The layout of a written file\<close>


fun index_from :: "nat \<Rightarrow> u8 list list \<Rightarrow> FrameIndexEntry list" where
  "index_from pos [] = []"
| "index_from pos (bs # rest) =
     \<lparr>entry_offset = of_nat pos, entry_size = of_nat (length bs)\<rparr>
       # index_from (pos + length bs) rest"

text \<open>
  A player state that maps a file of this layout: header, index table, stored frames,
  then \<open>tail\<close> (the audio samples and the zero fill of the last page).
\<close>

definition written_view :: "FastPlayerState \<Rightarrow> HMICFastHeader \<Rightarrow> u8 list list \<Rightarrow> u8 list \<Rightarrow> bool" where
  "written_view p hdr pays tail \<longleftrightarrow>
     mapped_data p = Region (header_bytes hdr
        @ concat (map entry_bytes (index_from (59 + 12 * length pays) pays))
        @ concat pays @ tail)
     \<and> header p = Some 0 \<and> frame_index p = Some 59
     \<and> frames_base p = Some (int (59 + 12 * length pays))
     \<and> hdr_magic hdr = HMICFAST \<and> hdr_total_frames hdr = of_nat (length pays)
     \<and> length pays < 2 ^ 31 \<and> 59 + 12 * length pays + length (concat pays) < 2 ^ 64"






subsection \<open>A container without frames, and a file with a wrong magic\<close>

text \<open>The example header with \<^verbatim>\<open>total_frames = 0\<close>, and a player that has loaded it.\<close>

definition empty_header :: HMICFastHeader where
  "empty_header = example_header\<lparr>hdr_total_frames := 0\<rparr>"

definition empty_player :: FastPlayerState where
  "empty_player = player0\<lparr> mapped_data := Region (header_bytes empty_header @ replicate 300 0),
     header := Some 0 \<rparr>"

text \<open>Ten bytes that begin with \<^verbatim>\<open>"HMICFASX"\<close>.\<close>

definition bad_file :: "u8 list" where
  "bad_file = [72, 77, 73, 67, 70, 65, 83, 88, 1, 0]"

chapter \<open>Properties\<close>

section \<open>Words and little-endian fields\<close>

lemma sint_small: "uint (w::u32) < 2147483648 \<Longrightarrow> sint w = uint w"
proof -
  assume a: "uint w < 2147483648"
  have "- (2 ^ 31) \<le> uint w"
    by (rule order_trans[OF _ uint_ge_0]) simp
  moreover have "uint w < 2 ^ 31" using a by simp
  ultimately have "signed_take_bit 31 (uint w) = uint w"
    by (rule signed_take_bit_int_eq_self)
  then show ?thesis by (simp add: sint_uint)
qed

lemma sint_le_uint: "sint (w::u32) \<le> uint w"
proof (cases "uint w < 2147483648")
  case True then show ?thesis by (simp add: sint_small)
next
  case False
  have "sint w < 2 ^ (LENGTH(32) - 1)" by (rule sint_lt)
  with False show ?thesis by simp
qed

lemma sint_pred:
  "1 \<le> uint (w::u32) \<Longrightarrow> uint w \<le> 2147483648 \<Longrightarrow> sint (w - 1) = uint w - 1"
proof -
  assume a: "1 \<le> uint w" "uint w \<le> 2147483648"
  have "uint (w - 1) = uint w - 1" using a by (simp add: uint_sub_if')
  then show ?thesis using a by (simp add: sint_small)
qed

lemma length_le_bytes [simp]: "length (le_bytes n v) = n"
  by (induction n arbitrary: v) auto

lemma le_nat_le_bytes: "le_nat (le_bytes n v) = v mod 256 ^ n"
proof (induction n arbitrary: v)
  case 0 show ?case by simp
next
  case (Suc n)
  have "unat (of_nat (v mod 256) :: u8) = v mod 256"
    by (simp add: unat_of_nat)
  then show ?case using Suc
    by (simp add: mod_mult2_eq)
qed

lemma u32_roundtrip: "(of_nat (le_nat (le_bytes 4 (unat (w::u32)))) :: u32) = w"
  using unsigned_less[of w, where ?'a=nat] by (simp add: le_nat_le_bytes)

lemma u64_roundtrip: "(of_nat (le_nat (le_bytes 8 (unat (w::u64)))) :: u64) = w"
  using unsigned_less[of w, where ?'a=nat] by (simp add: le_nat_le_bytes)

lemma u8_roundtrip: "(of_nat (le_nat (le_bytes (Suc 0) (unat (w::u8)))) :: u8) = w"
  using unsigned_less[of w, where ?'a=nat] by (simp add: le_nat_le_bytes)

lemma length_header_bytes: "length (hdr_magic h) = 8 \<Longrightarrow> length (header_bytes h) = 59"
  by (simp add: header_bytes_def)

lemma header_at_header_bytes:
  assumes "length (hdr_magic h) = 8"
  shows "header_at (header_bytes h @ rest) 0 = h"
  using assms
  by (simp add: header_at_def header_bytes_def bytes_at_def u32_at_def u64_at_def u8_at_def
      u32_roundtrip u64_roundtrip u8_roundtrip del: le_bytes.simps le_nat.simps)

lemma the_header_of_bytes:
  assumes "length (hdr_magic h) = 8" "mapped_data p = Region (header_bytes h @ rest)"
    "header p = Some 0"
  shows "the_header p = Some h"
proof -
  have "take 59 (header_bytes h @ rest) = header_bytes h"
    using assms(1) by (simp add: length_header_bytes)
  moreover have "header_at (header_bytes h) 0 = h"
    using header_at_header_bytes[OF assms(1), of "[]"] by simp
  ultimately show ?thesis
    using assms
    by (simp add: the_header_def deref_def bytes_at_def sizeof_HMICFastHeader_def
        length_header_bytes)
qed

section \<open>Seeking in the memory-mapped player\<close>

lemma the_header_upd [simp]:
  "the_header (p\<lparr>current_frame := f\<rparr>) = the_header p"
  "the_header (p\<lparr>target_audio_sample := t\<rparr>) = the_header p"
  "the_header (p\<lparr>audio_sample_pos := t\<rparr>) = the_header p"
  "the_header (p\<lparr>playing := bb\<rparr>) = the_header p"
  "the_header (p\<lparr>quit := bb\<rparr>) = the_header p"
  by (simp_all add: the_header_def)

lemma key_down_header: "key_down sample_of k p = Some p' \<Longrightarrow> the_header p' = the_header p"
  by (cases k) (auto simp: key_down_def Let_def split: option.splits)

lemma key_down_range:
  assumes h: "the_header p = Some h"
    and lo: "0 \<le> current_frame p"
    and hi: "current_frame p < uint (hdr_total_frames h)"
    and sz: "uint (hdr_total_frames h) \<le> 2147483638"
  shows "\<exists>p'. key_down sample_of k p = Some p'
           \<and> 0 \<le> current_frame p' \<and> current_frame p' \<le> uint (hdr_total_frames h) - 1
           \<and> (k \<in> {SDLK_RIGHT, SDLK_UP, SDLK_END}
                \<longrightarrow> current_frame p' = min (uint (hdr_total_frames h) - 1)
                      (current_frame p + (if k = SDLK_RIGHT then 1
                                          else if k = SDLK_UP then 10
                                          else uint (hdr_total_frames h))))"
proof -
  have s: "sint (hdr_total_frames h) = uint (hdr_total_frames h)"
    using sz by (simp add: sint_small)
  have s1: "sint (hdr_total_frames h - 1) = uint (hdr_total_frames h) - 1"
    using lo hi sz by (simp add: sint_pred)
  show ?thesis
    using h lo hi sz s s1
    by (cases k) (auto simp: key_down_def int_add_def int_sub_def INT_MIN_def INT_MAX_def Let_def)
qed

text \<open>The clock keeps the frame in range too, so the range is an invariant of the loop.\<close>

lemma time_update_range:
  assumes h: "the_header p = Some h"
    and lo: "0 \<le> current_frame p"
    and hi: "current_frame p < uint (hdr_total_frames h)"
    and sz: "uint (hdr_total_frames h) \<le> 2147483638"
    and t: "0 \<le> target_frame"
  shows "\<exists>p'. time_update sample_of target_frame p = Some p'
           \<and> 0 \<le> current_frame p' \<and> current_frame p' < uint (hdr_total_frames h)"
proof -
  have s: "sint (hdr_total_frames h) = uint (hdr_total_frames h)"
    using sz by (simp add: sint_small)
  show ?thesis
    using h lo hi t s by (auto simp: time_update_def Let_def)
qed

lemma get_frame_data_out_of_range:
  assumes h: "the_header p = Some h"
    and idx: "frame_idx < 0 \<or> uint (hdr_total_frames h) \<le> frame_idx"
  shows "get_frame_data zd p frame_idx = Some (NullPtr, p)"
  using h idx sint_le_uint[of "hdr_total_frames h"]
  by (auto simp: get_frame_data_def)

text \<open>
  C9. In a container of at least one and at most \<open>INT_MAX - 9\<close> frames, a player whose
  current frame is a valid frame handles every key without a crash, and its current
  frame is again in \<open>[0, total_frames - 1]\<close>; the forward seeks (RIGHT, UP, END) land on
  \<open>min (total_frames - 1) (current + step)\<close>, that is on the last frame when the step
  would pass it. In the resulting state a frame lookup with an index outside
  \<open>[0, total_frames)\<close> returns the null pointer, changes nothing, and the renderer reads
  no pixel.
\<close>

theorem seek_stays_in_range:
  assumes h: "the_header p = Some h"
    and lo: "0 \<le> current_frame p"
    and hi: "current_frame p < uint (hdr_total_frames h)"
    and sz: "uint (hdr_total_frames h) \<le> 2147483638"
  shows "\<exists>p'. key_down sample_of k p = Some p'
           \<and> 0 \<le> current_frame p' \<and> current_frame p' \<le> uint (hdr_total_frames h) - 1
           \<and> (k \<in> {SDLK_RIGHT, SDLK_UP, SDLK_END}
                \<longrightarrow> current_frame p' = min (uint (hdr_total_frames h) - 1)
                      (current_frame p + (if k = SDLK_RIGHT then 1
                                          else if k = SDLK_UP then 10
                                          else uint (hdr_total_frames h))))
           \<and> (\<forall>idx. idx < 0 \<or> uint (hdr_total_frames h) \<le> idx
                \<longrightarrow> get_frame_data zd p' idx = Some (NullPtr, p')
                    \<and> render_frame_fast zd p' idx = Some (None, p'))"
proof -
  obtain p' where k: "key_down sample_of k p = Some p'"
    and r: "0 \<le> current_frame p'" "current_frame p' \<le> uint (hdr_total_frames h) - 1"
      "k \<in> {SDLK_RIGHT, SDLK_UP, SDLK_END}
         \<longrightarrow> current_frame p' = min (uint (hdr_total_frames h) - 1)
               (current_frame p + (if k = SDLK_RIGHT then 1
                                   else if k = SDLK_UP then 10
                                   else uint (hdr_total_frames h)))"
    using key_down_range[OF h lo hi sz, of sample_of k] by blast
  have h': "the_header p' = Some h"
    using key_down_header[OF k] h by simp
  have "\<forall>idx. idx < 0 \<or> uint (hdr_total_frames h) \<le> idx
          \<longrightarrow> get_frame_data zd p' idx = Some (NullPtr, p')
              \<and> render_frame_fast zd p' idx = Some (None, p')"
    using get_frame_data_out_of_range[OF h'] by (simp add: render_frame_fast_def)
  with k r show ?thesis by blast
qed

lemma example_header_ok: "the_header example_player = Some example_header"
  by (rule the_header_of_bytes[where rest = "replicate 300 0"])
     (simp_all add: example_player_def example_header_def HMICFAST_def player0_def)

theorem seek_stays_in_range_witness:
  "the_header example_player = Some example_header
   \<and> 0 \<le> current_frame example_player
   \<and> current_frame example_player < uint (hdr_total_frames example_header)
   \<and> uint (hdr_total_frames example_header) \<le> 2147483638
   \<and> (\<exists>p'. key_down (\<lambda>f. 20 * f) SDLK_UP example_player = Some p'
         \<and> current_frame p' = 4
         \<and> get_frame_data (\<lambda>n bs. None) p' 5 = Some (NullPtr, p'))"
proof -
  have a: "0 \<le> current_frame example_player"
    "current_frame example_player < uint (hdr_total_frames example_header)"
    "uint (hdr_total_frames example_header) \<le> 2147483638"
    by (simp_all add: example_player_def example_header_def player0_def)
  from seek_stays_in_range[OF example_header_ok a, of "\<lambda>f. 20 * f" SDLK_UP "\<lambda>n bs. None"]
  obtain p' where "key_down (\<lambda>f. 20 * f) SDLK_UP example_player = Some p'"
    "current_frame p' = min (uint (hdr_total_frames example_header) - 1)
       (current_frame example_player + 10)"
    "get_frame_data (\<lambda>n bs. None) p' 5 = Some (NullPtr, p')"
    by (auto simp: example_header_def)
  then show ?thesis
    using example_header_ok a
    by (auto simp: example_player_def example_header_def player0_def)
qed

text \<open>
  Without a frame there is no valid position: in a container with \<^verbatim>\<open>total_frames = 0\<close>,
  which the loader accepts, END and RIGHT put the current frame at \<open>-1\<close>.
\<close>

lemma empty_header_ok: "the_header empty_player = Some empty_header"
  by (rule the_header_of_bytes[where rest = "replicate 300 0"])
     (simp_all add: empty_player_def empty_header_def example_header_def HMICFAST_def player0_def)

theorem seek_stays_in_range_counterexample:
  "map_option current_frame (key_down (\<lambda>f. 0) SDLK_END empty_player) = Some (- 1)
   \<and> map_option current_frame (key_down (\<lambda>f. 0) SDLK_RIGHT empty_player) = Some (- 1)"
proof -
  have h: "the_header empty_player = Some empty_header" by (rule empty_header_ok)
  have t: "hdr_total_frames empty_header = 0" by (simp add: empty_header_def)
  have c: "current_frame empty_player = 0" by (simp add: empty_player_def player0_def)
  show ?thesis
    by (simp add: key_down_def h t c int_sub_def int_add_def INT_MIN_def INT_MAX_def Let_def)
qed

section \<open>Loading a file with a wrong magic\<close>

lemma take8_view:
  assumes "take 8 file \<noteq> HMICFAST" "file \<noteq> []"
  shows "take 8 (mmap_view file) \<noteq> HMICFAST"
proof (cases "8 \<le> length file")
  case True
  then show ?thesis using assms by (simp add: mmap_view_def)
next
  case False
  then have len: "length file < 8" by simp
  let ?pad = "(page_size - length file mod page_size) mod page_size"
  have "0 < length file" using assms(2) by simp
  then have pad: "?pad = 4096 - length file" using len by (simp add: page_size_def)
  have "length file < length (take 8 (mmap_view file))"
    using len by (simp add: mmap_view_def pad)
  moreover have "take 8 (mmap_view file) ! length file = 0"
    using len by (simp add: mmap_view_def pad nth_append)
  moreover have "0 \<notin> set HMICFAST" "length HMICFAST = 8"
    by (simp_all add: HMICFAST_def)
  ultimately show ?thesis using len by (metis nth_mem)
qed

text \<open>
  C8. Loading a file whose first eight bytes are not \<^verbatim>\<open>"HMICFAST"\<close> returns
  \<^verbatim>\<open>false\<close>; the only read of the mapping is the read of the eight magic bytes (no
  read at all for the empty file, which cannot be mapped); afterwards no descriptor is
  open and no mapping is in place; and none of the fields that the loader sets up after
  the check (index and frame pointers, audio pointer and flag, the caches) has changed.
  The loader state is not reset: \<open>fd\<close> still holds the closed descriptor,
  \<open>mapped_size\<close> the size of the file, \<open>mapped_data\<close> the address of the released
  mapping (or \<^verbatim>\<open>MAP_FAILED\<close> for the empty file) and \<open>header\<close> points into it.
\<close>

theorem bad_magic_load_fails:
  assumes "take 8 file \<noteq> HMICFAST"
  shows "\<exists>p' tr. load_hmicfast (os_for_file file) p = (False, p', tr)
           \<and> resources_after tr = ([], [])
           \<and> filter is_read tr = (if file = [] then [] else [EvRead 0 8])
           \<and> frame_index p' = frame_index p \<and> frames_base p' = frames_base p
           \<and> audio_data p' = audio_data p \<and> has_audio p' = has_audio p
           \<and> frame_cache p' = frame_cache p \<and> frame_cached p' = frame_cached p
           \<and> fd p' = 3 \<and> mapped_size p' = length file
           \<and> mapped_data p' = (if file = [] then MapFailed else Region (mmap_view file))
           \<and> header p' = (if file = [] then header p else Some 0)"
proof (cases "file = []")
  case True
  then show ?thesis
    by (simp add: load_hmicfast_def os_for_file_def Let_def resources_after_def)
next
  case False
  have "hdr_magic (header_at (mmap_view file) 0) \<noteq> HMICFAST"
    using take8_view[OF assms False] by (simp add: header_at_def bytes_at_def)
  then show ?thesis using False
    by (simp add: load_hmicfast_def os_for_file_def Let_def resources_after_def)
qed

theorem bad_magic_load_fails_witness:
  "take 8 [72, 77, 73, 67, 70, 65, 83, 88, 1, 0] \<noteq> HMICFAST
   \<and> (\<exists>p' tr. load_hmicfast (os_for_file [72, 77, 73, 67, 70, 65, 83, 88, 1, 0]) player0
                 = (False, p', tr)
         \<and> resources_after tr = ([], [])
         \<and> filter is_read tr = [EvRead 0 8]
         \<and> frame_index p' = None \<and> frame_cache p' = [])"
proof -
  have a: "take 8 [72, 77, 73, 67, 70, 65, 83, 88, 1, 0] \<noteq> HMICFAST"
    by (simp add: HMICFAST_def)
  show ?thesis
    using a bad_magic_load_fails[OF a, of player0] by (auto simp: player0_def)
qed

text \<open>
  The claim as first stated, that a failed load keeps nothing of the attempt: after the
  load of ten bytes with a wrong magic into the initial player, the state is not the
  initial one.
\<close>

theorem bad_magic_load_fails_counterexample:
  "fst (snd (load_hmicfast (os_for_file bad_file) player0)) \<noteq> player0
   \<and> header (fst (snd (load_hmicfast (os_for_file bad_file) player0))) = Some 0
   \<and> fd (fst (snd (load_hmicfast (os_for_file bad_file) player0))) = 3
   \<and> mapped_size (fst (snd (load_hmicfast (os_for_file bad_file) player0))) = 10"
proof -
  have "hdr_magic (header_at (mmap_view bad_file) 0) \<noteq> HMICFAST"
    by (simp add: header_at_def bytes_at_def mmap_view_def bad_file_def HMICFAST_def)
  then have "header (fst (snd (load_hmicfast (os_for_file bad_file) player0))) = Some 0
    \<and> fd (fst (snd (load_hmicfast (os_for_file bad_file) player0))) = 3
    \<and> mapped_size (fst (snd (load_hmicfast (os_for_file bad_file) player0))) = 10"
    by (simp add: load_hmicfast_def os_for_file_def Let_def bad_file_def)
  moreover have "header player0 = None" by (simp add: player0_def)
  ultimately show ?thesis by (metis option.distinct(1))
qed

section \<open>Drift correction in the audio callbacks\<close>

lemma fill_samples_cursor:
  "fill_samples mem ad nch total_n k i pos out = Some (out', pos')
     \<Longrightarrow> pos' = (advance_fast total_n ^^ k) pos"
proof (induction k arbitrary: i pos out)
  case 0 then show ?case by simp
next
  case (Suc k)
  then show ?case
    by (auto simp: funpow_swap1 split: option.splits if_splits)
qed

lemma fill_samples_text_cursor:
  "fill_samples_text cd nch total_n loop z k i pos out = Some (out', pos')
     \<Longrightarrow> pos' = (advance_text loop total_n ^^ k) pos"
proof (induction k arbitrary: i pos out)
  case 0 then show ?case by simp
next
  case (Suc k)
  then show ?case
    by (auto simp: funpow_swap1 split: option.splits if_splits)
qed

text \<open>Far enough from the end of the track, \<open>k\<close> samples move the cursor by \<open>k\<close>.\<close>

lemma advance_fast_no_wrap:
  "int k + pos < total_n \<Longrightarrow> (advance_fast total_n ^^ k) pos = pos + int k"
  by (induction k arbitrary: pos) (auto simp: advance_fast_def funpow_swap1)

lemma advance_text_no_wrap:
  "\<not> loop \<or> int k + pos < total_n \<Longrightarrow> (advance_text loop total_n ^^ k) pos = pos + int k"
  by (induction k arbitrary: pos) (auto simp: advance_text_def funpow_swap1)

lemma audio_callback_cursor:
  assumes "audio_callback p len = Some (out, p')"
  shows "if playing p \<and> has_audio p \<and> audio_data p \<noteq> None
     then \<exists>h. the_header p = Some h \<and>
       audio_sample_pos p' =
        (advance_fast (sint (hdr_audio_samples h))
           ^^ nat (samples_needed_of len (uint (hdr_audio_channels h))))
          (if \<bar>target_audio_sample p - audio_sample_pos p\<bar> > uint (hdr_audio_sample_rate h) div 10
           then target_audio_sample p else audio_sample_pos p)
     else audio_sample_pos p' = audio_sample_pos p"
  using assms
  by (auto simp: audio_callback_def Let_def dest!: fill_samples_cursor
      split: option.splits region.splits if_splits)

lemma audio_callback_text_cursor:
  assumes "audio_callback_text z ad vi ps len = Some (out, ps')"
  shows "ps_audio_sample_pos ps' =
    (if ps_playing ps \<and> ps_has_audio ps
     then (advance_text (vi_loop vi) (ad_total_samples ad)
             ^^ nat (samples_needed_of len (ad_channels ad)))
          (if \<bar>ps_target_audio_sample ps - ps_audio_sample_pos ps\<bar> > tdiv (ad_sample_rate ad) 10
           then ps_target_audio_sample ps else ps_audio_sample_pos ps)
     else ps_audio_sample_pos ps)"
  using assms
  by (auto simp: audio_callback_text_def Let_def dest!: fill_samples_text_cursor
      split: option.splits if_splits)

text \<open>
  C7, as the code has it. A callback of either player that returns while the player is
  playing with audio leaves the cursor at the start position advanced once per sample
  frame it filled (\<^verbatim>\<open>len / sizeof(float) / channels\<close> of them), where the start position
  is the published target \<open>T\<close> when \<open>|T - C| > sample_rate / 10\<close> (integer division) and
  the old cursor \<open>C\<close> otherwise, and one advance is \<open>+1\<close> followed by the wrap to 0 at the
  end of the track (always in the memory-mapped player, only for a looping video in the
  text player). A callback that finds the player paused or without audio leaves the
  cursor where it was, whatever the drift.
\<close>

theorem callback_cursor:
  "(audio_callback p len = Some (out, p') \<longrightarrow>
      (if playing p \<and> has_audio p \<and> audio_data p \<noteq> None
       then \<exists>h. the_header p = Some h \<and>
         audio_sample_pos p' =
          (advance_fast (sint (hdr_audio_samples h))
             ^^ nat (samples_needed_of len (uint (hdr_audio_channels h))))
            (if \<bar>target_audio_sample p - audio_sample_pos p\<bar>
                  > uint (hdr_audio_sample_rate h) div 10
             then target_audio_sample p else audio_sample_pos p)
       else audio_sample_pos p' = audio_sample_pos p))
   \<and> (audio_callback_text z ad vi ps len2 = Some (out2, ps') \<longrightarrow>
        ps_audio_sample_pos ps' =
          (if ps_playing ps \<and> ps_has_audio ps
           then (advance_text (vi_loop vi) (ad_total_samples ad)
                   ^^ nat (samples_needed_of len2 (ad_channels ad)))
                (if \<bar>ps_target_audio_sample ps - ps_audio_sample_pos ps\<bar>
                      > tdiv (ad_sample_rate ad) 10
                 then ps_target_audio_sample ps else ps_audio_sample_pos ps)
           else ps_audio_sample_pos ps))"
  using audio_callback_cursor[of p len out p']
    audio_callback_text_cursor[of z ad vi ps len2 out2 ps']
  by blast

lemma le_nat_zeros [simp]: "le_nat (replicate n 0) = 0"
  by (induction n) auto

lemma example_playing_header: "the_header example_playing = Some example_header"
  using example_header_ok by (simp add: example_playing_def)

lemma samples_needed_4_1: "samples_needed_of 4 1 = 1"
  by (simp add: samples_needed_of_def)

lemma samples_needed_8_1: "samples_needed_of 8 1 = 2"
  by (simp add: samples_needed_of_def)

lemma example_len: "length (header_bytes example_header) = 59"
  by (rule length_header_bytes) (simp add: example_header_def HMICFAST_def)

lemma example_playing_fields:
  "playing example_playing" "has_audio example_playing"
  "audio_data example_playing = Some 159"
  "mapped_data example_playing = Region (header_bytes example_header @ replicate 300 0)"
  "target_audio_sample example_playing = 20" "audio_sample_pos example_playing = 0"
  by (simp_all add: example_playing_def example_player_def player0_def)

lemma example_header_fields:
  "hdr_audio_channels example_header = 1" "hdr_audio_sample_rate example_header = 100"
  "hdr_audio_samples example_header = 50"
  by (simp_all add: example_header_def)

lemma example_deref:
  "deref (header_bytes example_header @ replicate 300 0) 239 4 = Some (replicate 4 0)"
  using example_len by (simp add: deref_def bytes_at_def)

lemma example_callback:
  "audio_callback example_playing 4 = Some ([0], example_playing\<lparr>audio_sample_pos := 21\<rparr>)"
  by (simp add: audio_callback_def Let_def samples_needed_4_1
      example_playing_header example_playing_fields example_header_fields example_deref
      advance_fast_def)

lemma example_callback_text:
  "audio_callback_text 0 example_audio example_video example_text_player 8
     = Some ([7, 7], example_text_player\<lparr>ps_audio_sample_pos := 17\<rparr>)"
  by (simp add: audio_callback_text_def Let_def samples_needed_8_1 example_audio_def
      example_video_def example_text_player_def tdiv_def advance_text_def numeral_2_eq_2)

theorem callback_cursor_witness:
  "audio_callback example_playing 4 = Some ([0], example_playing\<lparr>audio_sample_pos := 21\<rparr>)
   \<and> audio_sample_pos (example_playing\<lparr>audio_sample_pos := 21\<rparr>)
       = (advance_fast 50 ^^ 1) (target_audio_sample example_playing)
   \<and> audio_callback_text 0 example_audio example_video example_text_player 8
       = Some ([7, 7], example_text_player\<lparr>ps_audio_sample_pos := 17\<rparr>)
   \<and> ps_audio_sample_pos (example_text_player\<lparr>ps_audio_sample_pos := 17\<rparr>)
       = (advance_text False 50 ^^ 2) (ps_audio_sample_pos example_text_player)"
  using callback_cursor[where p = example_playing and len = 4 and out = "[0]"
      and p' = "example_playing\<lparr>audio_sample_pos := 21\<rparr>"
      and z = 0 and ad = example_audio and vi = example_video and ps = example_text_player
      and ?len2.0 = 8 and ?out2.0 = "[7, 7]"
      and ps' = "example_text_player\<lparr>ps_audio_sample_pos := 17\<rparr>"]
    example_callback example_callback_text
  by (simp add: example_playing_header example_playing_fields example_header_fields
      samples_needed_4_1 samples_needed_8_1 example_audio_def example_video_def
      example_text_player_def tdiv_def)

text \<open>
  The claim as written fails: with the target 20 samples ahead of the cursor (more than
  \<open>100 / 10\<close>), a callback for one sample leaves the cursor at 21, not at the target.
\<close>

theorem callback_cursor_counterexample:
  "\<bar>target_audio_sample example_playing - audio_sample_pos example_playing\<bar>
      > uint (hdr_audio_sample_rate example_header) div 10
   \<and> the_header example_playing = Some example_header
   \<and> cursor_after example_playing 4 = Some 21
   \<and> cursor_after example_playing 4 \<noteq> Some (target_audio_sample example_playing)"
  by (simp add: cursor_after_def example_callback example_playing_header
      example_playing_fields example_header_fields)

section \<open>Numbers as text\<close>



lemma index_of_None: "c \<notin> set xs \<Longrightarrow> index_of c xs = None"
  by (induction xs) auto












section \<open>The spatial encoder\<close>


lemma entries_Nil [simp]: "entries [] = []"
  by (simp add: entries_def)



lemma pixel_xy_Some: "pixel_xy px w y x = Some c \<Longrightarrow> pixel_at px (y * w + x) = Some c"
  by (auto simp: pixel_xy_def pixel_index_def int_mul_def int_add_def
      split: option.splits if_splits)



























text \<open>
  A frame of \<open>INT_MAX\<close> by 2 pixels, all red, and two threads: in row 1 the index
  \<^verbatim>\<open>y * w + x + run_length\<close> leaves the \<^verbatim>\<open>int\<close> range at the second pixel, so the
  encoder does not return a map and nothing covers the row.
\<close>

lemma those_None: "None \<in> set xs \<Longrightarrow> those xs = None"
  by (induction xs) (auto split: option.splits)


text \<open>
  The split of the rows has a case of its own that the statement above leaves out: with
  more than \<open>h + 1\<close> threads, a thread that is not the last is given rows past \<open>h\<close>. For
  the red frame of 2 by 1 pixels and four threads, thread 1 reads past the end of the
  frame.
\<close>

lemma small_frame_many_threads: "main_process_frame red_frame 2 1 4 = None"
proof -
  have "process_frame_rows_parallel red_frame 2 1 1 2 [] = None"
    by (simp add: process_frame_rows_parallel.simps encode_row.simps
        pixel_xy_def pixel_index_def int_mul_def int_add_def INT_MIN_def INT_MAX_def
        pixel_at_def red_frame_def)
  moreover have "[0..(3::int)] = [0, 1, 2, 3]" by (simp add: upto.simps)
  ultimately show ?thesis
    by (simp add: main_process_frame_def thread_rows_def tdiv_def those_None
        del: those.simps)
qed

section \<open>Replaying encoded commands\<close>





lemma not_digit_chars [simp]:
  "\<not> is_digit CHR ''x''" "\<not> is_digit CHR ''-''" "\<not> is_digit CHR ''=''"
  "\<not> is_digit CHR ''L''" "\<not> is_digit CHR '',''"
  by (simp_all add: is_digit_def digit_chars_def)



















section \<open>The temporal merger\<close>

lemma find_match_None_iff:
  "find_match cmds c mg = None \<longleftrightarrow>
     \<not> (\<exists>d\<in>set cmds. c_x d = c_x c \<and> c_end_x d = c_end_x c \<and> c_y d = c_y c \<and> d \<notin> mg)"
  by (induction cmds) auto

lemma match_in_None_iff: "match_in frame color c mg = None \<longleftrightarrow> \<not> unconsumed_match frame color c mg"
  by (auto simp: match_in_def unconsumed_match_def find_match_None_iff split: option.splits)


lemma extend_frames_spec:
  assumes "0 \<le> next_idx" "n_frames \<le> int (length fc)" "n_frames \<le> int (length mg)"
  shows "\<exists>mg'. extend_frames fc n_frames color c next_idx (cons, mg)
           = Some (cons @ map (\<lambda>g. g + 1)
                     (takeWhile (\<lambda>g. unconsumed_match (fc ! nat g) color c (mg ! nat g))
                        [next_idx..n_frames - 1]), mg')
         \<and> length mg' = length mg"
  using assms
proof (induction fc n_frames color c next_idx "(cons, mg)" arbitrary: cons mg
    rule: extend_frames.induct)
  case (1 fc n_frames color c next_idx cons mg)
  let ?P = "\<lambda>m g. unconsumed_match (fc ! nat g) color c (m ! nat g)"
  show ?case
  proof (cases "next_idx < n_frames")
    case False
    then have "[next_idx..n_frames - 1] = []" by simp
    moreover have "extend_frames fc n_frames color c next_idx (cons, mg) = Some (cons, mg)"
      using False by (subst extend_frames.simps) simp
    ultimately show ?thesis by simp
  next
    case True
    have inr: "0 \<le> next_idx \<and> nat next_idx < length fc \<and> nat next_idx < length mg"
      using True "1.prems" by auto
    have up: "[next_idx..n_frames - 1] = next_idx # [next_idx + 1..n_frames - 1]"
      using True by (simp add: upto_rec1)
    show ?thesis
    proof (cases "match_in (fc ! nat next_idx) color c (mg ! nat next_idx)")
      case None
      then have "\<not> ?P mg next_idx" by (simp add: match_in_None_iff)
      moreover have "extend_frames fc n_frames color c next_idx (cons, mg) = Some (cons, mg)"
        using True inr None by (subst extend_frames.simps) simp
      ultimately show ?thesis by (simp add: up)
    next
      case (Some d)
      let ?mg1 = "mg[nat next_idx := insert d (mg ! nat next_idx)]"
      have "\<not> \<not> ?P mg next_idx"
        unfolding match_in_None_iff[symmetric] using Some by simp
      then have p: "?P mg next_idx" by simp
      have step: "extend_frames fc n_frames color c next_idx (cons, mg)
          = extend_frames fc n_frames color c (next_idx + 1) (cons @ [next_idx + 1], ?mg1)"
        using True inr Some by (subst extend_frames.simps) simp
      have "0 \<le> next_idx + 1" "n_frames \<le> int (length ?mg1)" using "1.prems" by auto
      from "1.hyps"[OF True inr Some this(1) "1.prems"(2) this(2)]
      obtain mg' where ih: "extend_frames fc n_frames color c (next_idx + 1)
           (cons @ [next_idx + 1], ?mg1)
           = Some ((cons @ [next_idx + 1]) @ map (\<lambda>g. g + 1)
                     (takeWhile (?P ?mg1) [next_idx + 1..n_frames - 1]), mg')"
        "length mg' = length ?mg1" by blast
      have "takeWhile (?P ?mg1) [next_idx + 1..n_frames - 1]
          = takeWhile (?P mg) [next_idx + 1..n_frames - 1]"
        using "1.prems"(1) by (intro takeWhile_cong) (auto simp: nth_list_update)
      then show ?thesis using step ih p by (simp add: up)
    qed
  qed
qed


text \<open>
  C6. Called for a command of frame \<open>frame_idx\<close> as the merger calls it, the extension
  loop returns, and its list of 1-based frame numbers is \<open>frame_idx\<close> followed by the
  longest run of frames \<open>frame_idx + 1, frame_idx + 2, ...\<close> below \<open>n_frames\<close> each of
  which has an unconsumed command of the same colour and \<open>(x, end_x, y)\<close>: the list ends
  before the first frame without one, and holds no later frame.
\<close>

theorem extension_is_longest_run:
  assumes "0 \<le> frame_idx" "n_frames \<le> int (length frame_commands)"
    "n_frames \<le> int (length merged_commands)"
  shows "\<exists>merged'. extend_frames frame_commands n_frames color cmd_data (frame_idx + 1)
             ([frame_idx + 1], merged_commands)
           = Some (map (\<lambda>g. g + 1)
                     (frame_idx #
                      takeWhile (\<lambda>g. unconsumed_match (frame_commands ! nat g) color cmd_data
                                        (merged_commands ! nat g))
                        [frame_idx + 1..n_frames - 1]), merged')"
proof -
  have "0 \<le> frame_idx + 1" using assms(1) by simp
  from extend_frames_spec[OF this assms(2,3), of color cmd_data "[frame_idx + 1]"]
  show ?thesis by auto
qed

theorem extension_is_longest_run_witness:
  "(0::int) \<le> 0 \<and> 4 \<le> int (length example_frames) \<and> 4 \<le> int (length (replicate 4 ({}::Command set)))
   \<and> (\<exists>merged'. extend_frames example_frames 4 red run_a (0 + 1) ([0 + 1], replicate 4 {})
         = Some ([1, 2], merged'))
   \<and> unconsumed_match (example_frames ! 3) red run_a {}"
proof -
  have a: "(0::int) \<le> 0" "4 \<le> int (length example_frames)"
    "4 \<le> int (length (replicate 4 ({}::Command set)))"
    by (simp_all add: example_frames_def)
  have t: "takeWhile (\<lambda>g. unconsumed_match (example_frames ! nat g) red run_a
                          (replicate 4 {} ! nat g)) [1..3] = [1]"
    by (simp add: example_frames_def unconsumed_match_def red_def blue_def upto_rec1)
  have u: "unconsumed_match (example_frames ! 3) red run_a {}"
    by (simp add: example_frames_def unconsumed_match_def)
  from extension_is_longest_run[OF a, of red run_a]
  show ?thesis using a u by (simp add: t)
qed

section \<open>Frame numbers outside the video\<close>

lemma store_command_spec:
  assumes "length fs = nat total_n"
  shows "\<exists>fs'. store_command line color total_n fns fs = Some fs'
           \<and> length fs' = length fs
           \<and> (\<forall>i<length fs. int i + 1 \<notin> set fns \<longrightarrow> fs' ! i = fs ! i)
           \<and> store_command line color total_n (filter (\<lambda>fn. 0 < fn \<and> fn \<le> total_n) fns) fs
               = Some fs'"
  using assms
proof (induction fns arbitrary: fs)
  case Nil
  then show ?case by simp
next
  case (Cons fn fns)
  show ?case
  proof (cases "fn > 0 \<and> fn \<le> total_n")
    case False
    then show ?thesis using Cons.IH[OF Cons.prems] by auto
  next
    case True
    let ?fs1 = "fs[nat (fn - 1) := (fs ! nat (fn - 1))\<lparr>frame_number := fn,
        commands := map_push_back color line (commands (fs ! nat (fn - 1)))\<rparr>]"
    have inr: "nat (fn - 1) < length fs" using True Cons.prems by auto
    have "length ?fs1 = nat total_n" using Cons.prems by simp
    from Cons.IH[OF this]
    obtain fs' where ih: "store_command line color total_n fns ?fs1 = Some fs'"
      "length fs' = length ?fs1"
      "\<forall>i<length ?fs1. int i + 1 \<notin> set fns \<longrightarrow> fs' ! i = ?fs1 ! i"
      "store_command line color total_n (filter (\<lambda>fn. 0 < fn \<and> fn \<le> total_n) fns) ?fs1
         = Some fs'"
      by blast
    have "\<forall>i<length fs. int i + 1 \<notin> set (fn # fns) \<longrightarrow> fs' ! i = fs ! i"
    proof (intro allI impI)
      fix i assume i: "i < length fs" "int i + 1 \<notin> set (fn # fns)"
      then have "i \<noteq> nat (fn - 1)" using True by auto
      then show "fs' ! i = fs ! i" using ih(3) i by simp
    qed
    then show ?thesis using True inr ih by simp
  qed
qed

text \<open>
  C10. In a parser whose \<^verbatim>\<open>frames\<close> vector has \<^verbatim>\<open>total_frames\<close> elements, inside a
  block whose range string \<^verbatim>\<open>parse_frame_range\<close> reads without an exception (every
  number is an \<^verbatim>\<open>int\<close> for \<^verbatim>\<open>std::stoi\<close>, no range ends at \<open>INT_MAX\<close>), giving the
  list \<open>frame_nums\<close>, a line that begins with \<^verbatim>\<open>P=\<close> or \<^verbatim>\<open>PL=\<close> is handled without an
  error and without an access outside \<^verbatim>\<open>frames\<close>: the vector keeps its length, every
  frame whose 1-based number is not in the list is unchanged, and the result is the one
  obtained from the list with all numbers outside \<open>[1, total_frames]\<close> removed.
\<close>

theorem out_of_range_frames_discarded:
  assumes "parse_frame_range (current_frame_range st) = Some frame_nums"
    and "length (frames st) = nat (total_frames st)"
    and "starts_with line ''P='' \<or> starts_with line ''PL=''"
  shows "\<exists>fs'. video_frames_line line st = Some (st\<lparr>frames := fs'\<rparr>)
           \<and> length fs' = length (frames st)
           \<and> (\<forall>i<length (frames st). int i + 1 \<notin> set frame_nums \<longrightarrow> fs' ! i = frames st ! i)
           \<and> store_command line (current_color st) (total_frames st)
                (filter (\<lambda>fn. 0 < fn \<and> fn \<le> total_frames st) frame_nums) (frames st) = Some fs'"
proof -
  have p: "hd line = CHR ''P''" "\<not> starts_with line ''rgba(''"
    using assms(3) by (cases line; auto simp: starts_with_def)+
  from store_command_spec[OF assms(2), of line "current_color st" frame_nums]
  obtain fs' where fs': "store_command line (current_color st) (total_frames st) frame_nums (frames st)
      = Some fs'"
    "length fs' = length (frames st)"
    "\<forall>i<length (frames st). int i + 1 \<notin> set frame_nums \<longrightarrow> fs' ! i = frames st ! i"
    "store_command line (current_color st) (total_frames st)
       (filter (\<lambda>fn. 0 < fn \<and> fn \<le> total_frames st) frame_nums) (frames st) = Some fs'"
    by blast
  have "video_frames_line line st = Some (st\<lparr>frames := fs'\<rparr>)"
    using p assms(1,3) fs'(1) by (simp add: video_frames_line_def)
  then show ?thesis using fs'(2,3,4) by blast
qed


lemma range_loop_upto:
  assumes "end_f < INT_MAX" "INT_MIN \<le> i"
  shows "range_loop i end_f frame_nums = Some (frame_nums @ [i..end_f])"
  using assms
proof (induction i end_f frame_nums rule: range_loop.induct)
  case (1 i end_f frame_nums)
  show ?case
  proof (cases "i \<le> end_f")
    case False
    then show ?thesis by (subst range_loop.simps) simp
  next
    case True
    have a: "int_add i 1 = Some (i + 1)"
      using True "1.prems" by (simp add: int_add_def)
    have "range_loop (i + 1) end_f (frame_nums @ [i]) = Some ((frame_nums @ [i]) @ [i + 1..end_f])"
      using "1.IH"[OF True a] "1.prems" by simp
    then show ?thesis
      using True a by (subst range_loop.simps) (simp add: upto_rec1)
  qed
qed

lemma range_loop_overflow:
  assumes "i \<le> INT_MAX" "INT_MIN \<le> i"
  shows "range_loop i INT_MAX frame_nums = None"
  using assms
proof (induction i "INT_MAX" frame_nums rule: range_loop.induct)
  case (1 i frame_nums)
  show ?case
  proof (cases "i = INT_MAX")
    case True
    then show ?thesis
      by (subst range_loop.simps) (simp add: int_add_def INT_MAX_def INT_MIN_def)
  next
    case False
    have a: "int_add i 1 = Some (i + 1)"
      using False "1.prems" by (simp add: int_add_def)
    have "range_loop (i + 1) INT_MAX (frame_nums @ [i]) = None"
      using "1.hyps"[OF _ a] "1.prems" False by simp
    then show ?thesis using "1.prems" a by (subst range_loop.simps) simp
  qed
qed

lemma stoi_2_5: "stoi ''2'' = Some 2" "stoi ''5'' = Some 5"
  by (simp_all add: stoi_def is_space_def is_digit_def digit_chars_def digit_val_def
      INT_MIN_def INT_MAX_def Let_def)

lemma parse_2_5: "parse_frame_range ''2-5'' = Some [2, 3, 4, 5]"
  by (simp add: parse_frame_range_def parse_range_token_def str_find_def npos_def substr_def
      size_t_add_def stoi_2_5 Let_def upto_rec1 range_loop_upto INT_MAX_def INT_MIN_def)

theorem out_of_range_frames_discarded_witness:
  "parse_frame_range (current_frame_range example_parser) = Some [2, 3, 4, 5]
   \<and> length (frames example_parser) = nat (total_frames example_parser)
   \<and> (starts_with ''P=1x1'' ''P='' \<or> starts_with ''P=1x1'' ''PL='')
   \<and> video_frames_line ''P=1x1'' example_parser
       = Some (example_parser\<lparr>frames :=
           [\<lparr>frame_number = 0, commands = []\<rparr>,
            \<lparr>frame_number = 2, commands = [(red, [''P=1x1''])]\<rparr>,
            \<lparr>frame_number = 3, commands = [(red, [''P=1x1''])]\<rparr>]\<rparr>)"
proof -
  have a: "parse_frame_range (current_frame_range example_parser) = Some [2, 3, 4, 5]"
    "length (frames example_parser) = nat (total_frames example_parser)"
    "starts_with ''P=1x1'' ''P='' \<or> starts_with ''P=1x1'' ''PL=''"
    by (simp_all add: example_parser_def parse_2_5 starts_with_def)
  from out_of_range_frames_discarded[OF a]
  obtain fs' where fs': "video_frames_line ''P=1x1'' example_parser
      = Some (example_parser\<lparr>frames := fs'\<rparr>)"
    "store_command ''P=1x1'' (current_color example_parser) (total_frames example_parser)
       (filter (\<lambda>fn. 0 < fn \<and> fn \<le> total_frames example_parser) [2, 3, 4, 5])
       (frames example_parser) = Some fs'"
    by blast
  have "fs' = [\<lparr>frame_number = 0, commands = []\<rparr>,
            \<lparr>frame_number = 2, commands = [(red, [''P=1x1''])]\<rparr>,
            \<lparr>frame_number = 3, commands = [(red, [''P=1x1''])]\<rparr>]"
    using fs'(2)
    by (simp add: example_parser_def map_push_back_def numeral_3_eq_3)
  then show ?thesis using a fs'(1) by simp
qed

text \<open>
  A frame number that is no \<^verbatim>\<open>int\<close>, a negative one, or a range that ends at
  \<open>INT_MAX\<close> is not discarded: \<^verbatim>\<open>std::stoi\<close> throws, or the loop over the range does
  not end, and nothing catches it.
\<close>

lemma parse_at_int_max: "parse_frame_range ''2147483646-2147483647'' = None"
proof -
  have s: "stoi ''2147483646'' = Some 2147483646" "stoi ''2147483647'' = Some 2147483647"
    by (simp_all add: stoi_def is_space_def is_digit_def digit_chars_def digit_val_def
        INT_MIN_def INT_MAX_def Let_def)
  have r: "range_loop 2147483646 2147483647 [] = None"
    by (simp add: range_loop.simps int_add_def INT_MIN_def INT_MAX_def)
  show ?thesis
    by (simp add: parse_frame_range_def parse_range_token_def str_find_def npos_def substr_def
      size_t_add_def Let_def s r)
qed

theorem out_of_range_frames_discarded_counterexample:
  "video_frames_line ''P=1x1'' (example_parser\<lparr>current_frame_range := ''99999999999''\<rparr>) = None
   \<and> video_frames_line ''P=1x1'' (example_parser\<lparr>current_frame_range := ''-5''\<rparr>) = None
   \<and> video_frames_line ''P=1x1''
        (example_parser\<lparr>current_frame_range := ''2147483646-2147483647''\<rparr>) = None"
proof -
  have "video_frames_line ''P=1x1''
        (example_parser\<lparr>current_frame_range := ''2147483646-2147483647''\<rparr>) = None"
    by (simp add: video_frames_line_def starts_with_def parse_at_int_max)
  moreover have "video_frames_line ''P=1x1'' (example_parser\<lparr>current_frame_range := ''99999999999''\<rparr>) = None
   \<and> video_frames_line ''P=1x1'' (example_parser\<lparr>current_frame_range := ''-5''\<rparr>) = None"
  by (simp add: video_frames_line_def starts_with_def parse_frame_range_def parse_range_token_def
      str_find_def npos_def substr_def size_t_add_def stoi_def is_space_def is_digit_def
      digit_chars_def digit_val_def INT_MIN_def INT_MAX_def Let_def example_parser_def)
  ultimately show ?thesis by simp
qed

section \<open>Range strings\<close>





lemma takeWhile_upto: "\<exists>j. a - 1 \<le> j \<and> j \<le> max (a - 1) b \<and> takeWhile P [a..b] = [a..j]"
proof (induction "nat (b + 1 - a)" arbitrary: a)
  case 0
  then have "[a..b] = []" by simp
  then show ?case by (intro exI[of _ "a - 1"]) simp
next
  case (Suc k)
  then have le: "a \<le> b" by simp
  then have up: "[a..b] = a # [a + 1..b]" by (simp add: upto_rec1)
  show ?case
  proof (cases "P a")
    case False
    then show ?thesis using up by (intro exI[of _ "a - 1"]) simp
  next
    case True
    have "k = nat (b + 1 - (a + 1))" using Suc.hyps(2) by simp
    from Suc.hyps(1)[OF this]
    obtain j where j: "a + 1 - 1 \<le> j" "j \<le> max (a + 1 - 1) b" "takeWhile P [a + 1..b] = [a + 1..j]"
      by blast
    have "takeWhile P [a..b] = a # [a + 1..j]" using True up j(3) by simp
    also have "\<dots> = [a..j]" using j(1) by (simp add: upto_rec1)
    finally show ?thesis using j le by (intro exI[of _ j]) auto
  qed
qed

section \<open>The shape of an encoded frame\<close>

lemma map_modify_keys: "set (map fst (map_modify k d f m)) = insert k (set (map fst m))"
proof (induction m)
  case Nil then show ?case by simp
next
  case (Cons kv m)
  obtain k' v where kv: "kv = (k', v)" by (cases kv)
  show ?case using Cons.IH unfolding kv by (cases "k = k'"; cases "k < k'") auto
qed

lemma map_modify_sorted:
  "sorted_wrt (<) (map fst m) \<Longrightarrow> sorted_wrt (<) (map fst (map_modify k d f m))"
proof (induction m)
  case Nil then show ?case by simp
next
  case (Cons kv m)
  obtain k' v where kv: "kv = (k', v)" by (cases kv)
  show ?case
  proof (cases "k = k'")
    case True then show ?thesis using Cons.prems by (simp add: kv)
  next
    case False
    show ?thesis
    proof (cases "k < k'")
      case True
      then show ?thesis using Cons.prems False by (auto simp: kv)
    next
      case nlt: False
      then have "k' < k" using False by simp
      moreover have "sorted_wrt (<) (map fst (map_modify k d f m))" using Cons by (simp add: kv)
      ultimately show ?thesis
        using Cons.prems False nlt map_modify_keys[of k d f m]
        by (auto simp: kv)
    qed
  qed
qed

lemma encode_row_keys:
  "encode_row px w y x m = Some m' \<Longrightarrow> sorted_wrt (<) (map fst m)
     \<Longrightarrow> sorted_wrt (<) (map fst m')"
proof (induction px w y x m rule: encode_row.induct)
  case (1 px w y x m)
  show ?case
  proof (cases "x < w")
    case False
    with "1.prems" show ?thesis by (subst (asm) encode_row.simps) simp
  next
    case True
    from "1.prems"(1) True obtain c n where c: "pixel_xy px w y x = Some c"
      and n: "run_length_from px w y x c 1 = Some n"
      by (subst (asm) encode_row.simps) (auto split: option.splits)
    let ?cmd = "\<lparr>c_cmd = command_text n x (x + n - 1) y, c_x = x, c_end_x = x + n - 1, c_y = y\<rparr>"
    have r: "encode_row px w y (x + n) (map_push_back c ?cmd m) = Some m'"
      using "1.prems"(1) True c n by (subst (asm) encode_row.simps) (simp add: Let_def)
    have "sorted_wrt (<) (map fst (map_push_back c ?cmd m))"
      using "1.prems"(2) by (simp add: map_push_back_def map_modify_sorted)
    from "1.IH"[OF True c n refl refl r this] show ?thesis .
  qed
qed

lemma rows_keys:
  "process_frame_rows_parallel px w h start_row end_row m = Some m'
     \<Longrightarrow> sorted_wrt (<) (map fst m) \<Longrightarrow> sorted_wrt (<) (map fst m')"
proof (induction px w h start_row end_row m rule: process_frame_rows_parallel.induct)
  case (1 px w h start_row end_row m)
  show ?case
  proof (cases "start_row < end_row")
    case False
    with "1.prems" show ?thesis by (subst (asm) process_frame_rows_parallel.simps) simp
  next
    case True
    from "1.prems"(1) True obtain m1 where m1: "encode_row px w start_row 0 m = Some m1"
      and r: "process_frame_rows_parallel px w h (start_row + 1) end_row m1 = Some m'"
      by (subst (asm) process_frame_rows_parallel.simps) (auto split: option.splits)
    from "1.IH"[OF True m1 r encode_row_keys[OF m1 "1.prems"(2)]] show ?thesis .
  qed
qed










lemma entries_single [simp]: "entries (map_push_back k t []) = [(k, t)]"
  by (simp add: map_push_back_def entries_def)

lemma temporal_entries_Nil [simp]: "temporal_entries [] fn = []"
  by (simp add: temporal_entries_def)

























section \<open>The binary container: what is written is read back\<close>


lemma entry_upd [simp]:
  "(r::FrameIndexEntry)\<lparr>entry_offset := a, entry_size := b\<rparr> = \<lparr>entry_offset = a, entry_size = b\<rparr>"
  by (cases r) simp

lemma update_entry:
  assumes "i < length idx"
  shows "(idx[i := (idx ! i)\<lparr>entry_offset := off\<rparr>])
            [i := ((idx[i := (idx ! i)\<lparr>entry_offset := off\<rparr>]) ! i)\<lparr>entry_size := sz\<rparr>]
         = idx[i := \<lparr>entry_offset = off, entry_size = sz\<rparr>]"
  using assms by simp

lemma length_index_from [simp]: "length (index_from pos ps) = length ps"
  by (induction ps arbitrary: pos) auto




lemma length_entry_bytes [simp]: "length (entry_bytes e) = 12"
  by (simp add: entry_bytes_def)


























lemma written_view_cache [simp]:
  "written_view (q\<lparr>frame_cache := a, frame_cached := b\<rparr>) hdr pays tail = written_view q hdr pays tail"
  by (simp add: written_view_def)
















lemma write_frames_ok:
  "(c \<longrightarrow> (\<forall>fr\<in>set fs. zc (frame_bytes fr) \<noteq> None)) \<Longrightarrow> fst (write_frames zc c fs i s idx)"
  by (induction fs arbitrary: i s idx) (auto simp: Let_def)

lemma write_succeeds:
  assumes "compress_frames \<longrightarrow> (\<forall>fr\<in>set frames_data. zc (frame_bytes fr) \<noteq> None)"
  shows "\<exists>file. write_hmicfast_binary zc w h fps_v frames_data None compress_frames = Some (True, file)"
proof -
  let ?r = "write_frames zc compress_frames frames_data 0
     (stream_write (concat (map entry_bytes
          (replicate (length frames_data) \<lparr>entry_offset = 0, entry_size = 0\<rparr>)))
        (stream_write (header_bytes \<lparr> hdr_magic = HMICFAST, hdr_version = 1, hdr_width = of_int w,
           hdr_height = of_int h, hdr_fps = of_int fps_v,
           hdr_total_frames = of_nat (length frames_data),
           hdr_has_audio = 0,
           hdr_compressed = (if compress_frames then 1 else 0),
           hdr_audio_sample_rate = 0, hdr_audio_channels = 0, hdr_audio_samples = 0,
           hdr_frame_index_offset = 0, hdr_audio_data_offset = 0 \<rparr>)
          \<lparr>file_bytes = [], put_pos = 0\<rparr>))
     (replicate (length frames_data) \<lparr>entry_offset = 0, entry_size = 0\<rparr>)"
  have "fst ?r" by (rule write_frames_ok[OF assms])
  then obtain s3 idx where "?r = (True, s3, idx)" by (cases ?r) auto
  then show ?thesis
    by (simp add: write_hmicfast_binary_def Let_def del: map_replicate)
qed




end
